theory Spec2Isabelle
  imports Complex_Main
begin

section \<open>Numbers and configuration\<close>

text \<open>
  The game is written in TypeScript. Its \<^verbatim>\<open>number\<close> values that measure positions, sizes,
  speeds and times are modelled as \<^typ>\<open>real\<close>; counters that only ever hold whole numbers
  (lives, score, wave, row, column, speed stage) are modelled as \<^typ>\<open>int\<close> or \<^typ>\<open>nat\<close>.
  The rounding of IEEE doubles is not part of this model. The statements that depend on
  it (the range of the player's \<open>x\<close>, the cancelling of its two movements and the
  traverse of the UFO) are made about a second model of \<^verbatim>\<open>Player.update\<close> and
  \<^verbatim>\<open>UFO.update\<close> in double arithmetic, given in a section of its own.
  The constants below are the entries of \<^verbatim>\<open>GAME_CONFIG\<close> in \<^verbatim>\<open>game.ts\<close>.
\<close>

definition CANVAS_WIDTH :: real where "CANVAS_WIDTH = 800"
definition CANVAS_HEIGHT :: real where "CANVAS_HEIGHT = 600"
definition PLAYER_SPEED :: real where "PLAYER_SPEED = 300"
definition PLAYER_WIDTH :: real where "PLAYER_WIDTH = 40"
definition PLAYER_HEIGHT :: real where "PLAYER_HEIGHT = 20"
definition PLAYER_LIVES :: int where "PLAYER_LIVES = 3"
definition BULLET_SPEED :: real where "BULLET_SPEED = 400"
definition BULLET_WIDTH :: real where "BULLET_WIDTH = 4"
definition BULLET_HEIGHT :: real where "BULLET_HEIGHT = 12"
definition MAX_PLAYER_BULLETS :: nat where "MAX_PLAYER_BULLETS = 5"
definition PLAYER_SHOOT_COOLDOWN :: real where "PLAYER_SHOOT_COOLDOWN = 200"
definition ENEMY_WIDTH :: real where "ENEMY_WIDTH = 48"
definition ENEMY_HEIGHT :: real where "ENEMY_HEIGHT = 32"
definition ENEMY_ROWS :: nat where "ENEMY_ROWS = 5"
definition ENEMY_COLS :: nat where "ENEMY_COLS = 9"
definition ENEMY_SPACING_X :: real where "ENEMY_SPACING_X = 64"
definition ENEMY_SPACING_Y :: real where "ENEMY_SPACING_Y = 40"
definition ENEMY_START_X :: real where "ENEMY_START_X = 88"
definition ENEMY_START_Y :: real where "ENEMY_START_Y = 80"
definition ENEMY_MOVE_SPEED :: real where "ENEMY_MOVE_SPEED = 20"
definition ENEMY_DROP_DISTANCE :: real where "ENEMY_DROP_DISTANCE = 20"
definition ENEMY_SHOOT_INTERVAL :: real where "ENEMY_SHOOT_INTERVAL = 2000"
definition SCORE_PER_ENEMY :: int where "SCORE_PER_ENEMY = 10"
definition UFO_SPEED :: real where "UFO_SPEED = 100"
definition UFO_WIDTH :: real where "UFO_WIDTH = 50"
definition UFO_HEIGHT :: real where "UFO_HEIGHT = 20"
definition UFO_SCORE :: int where "UFO_SCORE = 100"
definition UFO_SPAWN_INTERVAL :: real where "UFO_SPAWN_INTERVAL = 15000"
definition UFO_Y_POSITION :: real where "UFO_Y_POSITION = 30"

datatype GameState = TITLE | PLAYING | GAME_OVER

section \<open>Utilities (utils.ts)\<close>

record Rect =
  x :: real
  y :: real
  width :: real
  height :: real

definition checkCollision :: "Rect \<Rightarrow> Rect \<Rightarrow> bool" where
  "checkCollision rect1 rect2 \<longleftrightarrow>
     x rect1 < x rect2 + width rect2 \<and>
     x rect1 + width rect1 > x rect2 \<and>
     y rect1 < y rect2 + height rect2 \<and>
     y rect1 + height rect1 > y rect2"

definition clamp :: "real \<Rightarrow> real \<Rightarrow> real \<Rightarrow> real" where
  "clamp v lo hi = max lo (min hi v)"

text \<open>
  \<^verbatim>\<open>randomInt(min, max)\<close> is \<^verbatim>\<open>Math.floor(Math.random() * (max - min + 1)) + min\<close>.
  The value drawn by \<^verbatim>\<open>Math.random()\<close> is the first argument of the model.
\<close>

definition randomInt :: "real \<Rightarrow> int \<Rightarrow> int \<Rightarrow> int" where
  "randomInt r lo hi = \<lfloor>r * of_int (hi - lo + 1)\<rfloor> + lo"

text \<open>
  \<^verbatim>\<open>removeInPlace\<close> compacts the array in place, keeping in order the items for which the
  predicate is false. The recursion follows the read index; the written prefix is the
  accumulator.
\<close>

fun removeInPlace_loop :: "('a \<Rightarrow> bool) \<Rightarrow> 'a list \<Rightarrow> 'a list \<Rightarrow> 'a list" where
  "removeInPlace_loop predicate written [] = written"
| "removeInPlace_loop predicate written (item # rest) =
     (if \<not> predicate item then removeInPlace_loop predicate (written @ [item]) rest
      else removeInPlace_loop predicate written rest)"

definition removeInPlace :: "'a list \<Rightarrow> ('a \<Rightarrow> bool) \<Rightarrow> 'a list" where
  "removeInPlace array predicate = removeInPlace_loop predicate [] array"

section \<open>Entities (game.ts)\<close>

text \<open>
  Every entity has the fields \<open>x\<close>, \<open>y\<close>, \<open>width\<close> and \<open>height\<close> of a \<^verbatim>\<open>Rect\<close>, and its record
  extends \<open>Rect\<close>. A field name that several classes share is told apart by a prefix:
  \<open>speed\<close> is the bullet's, \<open>pspeed\<close> the player's and \<open>uspeed\<close> the UFO's;
  \<open>lastShootTime\<close> is the player's and \<open>gridLastShootTime\<close> the grid's. Methods of the
  same name carry the class name (\<open>Player_update\<close>, \<open>UFO_update\<close>).
\<close>

subsection \<open>Bullet\<close>

record Bullet = Rect +
  speed :: real
  isPlayerBullet :: bool

definition Bullet_new :: "real \<Rightarrow> real \<Rightarrow> real \<Rightarrow> bool \<Rightarrow> Bullet" where
  "Bullet_new bx by bspeed owner =
     \<lparr>x = bx, y = by, width = BULLET_WIDTH, height = BULLET_HEIGHT,
      speed = bspeed, isPlayerBullet = owner\<rparr>"

definition Bullet_update :: "real \<Rightarrow> Bullet \<Rightarrow> Bullet" where
  "Bullet_update deltaTime b = b\<lparr>y := y b + speed b * deltaTime\<rparr>"

definition isOutOfBounds :: "Bullet \<Rightarrow> bool" where
  "isOutOfBounds b \<longleftrightarrow> y b < - height b \<or> y b > CANVAS_HEIGHT"

definition getRect :: "'a Rect_scheme \<Rightarrow> Rect" where
  "getRect r = \<lparr>x = x r, y = y r, width = width r, height = height r\<rparr>"

subsection \<open>Player\<close>

record Player = Rect +
  pspeed :: real
  lives :: int
  lastShootTime :: real

definition Player_new :: Player where
  "Player_new =
     \<lparr>x = (CANVAS_WIDTH - PLAYER_WIDTH) / 2, y = CANVAS_HEIGHT - PLAYER_HEIGHT - 20,
      width = PLAYER_WIDTH, height = PLAYER_HEIGHT,
      pspeed = PLAYER_SPEED, lives = PLAYER_LIVES, lastShootTime = 0\<rparr>"

definition Player_update :: "real \<Rightarrow> bool \<Rightarrow> bool \<Rightarrow> Player \<Rightarrow> Player" where
  "Player_update deltaTime moveLeft moveRight p =
     (let p1 = (if moveLeft then p\<lparr>x := x p - pspeed p * deltaTime\<rparr> else p);
          p2 = (if moveRight then p1\<lparr>x := x p1 + pspeed p1 * deltaTime\<rparr> else p1)
      in p2\<lparr>x := clamp (x p2) 0 (CANVAS_WIDTH - width p2)\<rparr>)"

definition canShoot :: "real \<Rightarrow> Player \<Rightarrow> bool" where
  "canShoot currentTime p \<longleftrightarrow> currentTime - lastShootTime p \<ge> PLAYER_SHOOT_COOLDOWN"

text \<open>\<^verbatim>\<open>shoot\<close> returns the bullet (or \<^verbatim>\<open>null\<close>, here \<open>None\<close>) and the player as it leaves it.\<close>

definition Player_shoot :: "real \<Rightarrow> Player \<Rightarrow> Bullet option \<times> Player" where
  "Player_shoot currentTime p =
     (if \<not> canShoot currentTime p then (None, p)
      else
        (let p' = p\<lparr>lastShootTime := currentTime\<rparr>;
             bulletX = x p' + width p' / 2 - BULLET_WIDTH / 2;
             bulletY = y p' - BULLET_HEIGHT
         in (Some (Bullet_new bulletX bulletY (- BULLET_SPEED) True), p')))"

definition hit :: "Player \<Rightarrow> Player" where
  "hit p = p\<lparr>lives := lives p - 1\<rparr>"

definition resetPosition :: "Player \<Rightarrow> Player" where
  "resetPosition p =
     p\<lparr>x := (CANVAS_WIDTH - width p) / 2,
       y := CANVAS_HEIGHT - height p - 20,
       lastShootTime := 0\<rparr>"

definition Player_reset :: "Player \<Rightarrow> Player" where
  "Player_reset p = (resetPosition p)\<lparr>lives := PLAYER_LIVES\<rparr>"

subsection \<open>UFO\<close>

record UFO = Rect +
  uspeed :: real
  isActive :: bool
  direction :: real

text \<open>The constructor draws \<^verbatim>\<open>Math.random()\<close> once; the drawn value is the argument.\<close>

definition UFO_new :: "real \<Rightarrow> UFO" where
  "UFO_new r =
     (let d = (if r < 0.5 then 1 else - 1)
      in \<lparr>x = (if d = 1 then - UFO_WIDTH else CANVAS_WIDTH), y = UFO_Y_POSITION,
          width = UFO_WIDTH, height = UFO_HEIGHT,
          uspeed = UFO_SPEED, isActive = True, direction = d\<rparr>)"

definition UFO_update :: "real \<Rightarrow> UFO \<Rightarrow> UFO" where
  "UFO_update deltaTime u =
     (if \<not> isActive u then u
      else
        (let u1 = u\<lparr>x := x u + uspeed u * direction u * deltaTime\<rparr>
         in if direction u1 = 1 \<and> x u1 > CANVAS_WIDTH then u1\<lparr>isActive := False\<rparr>
            else if direction u1 = - 1 \<and> x u1 < - width u1 then u1\<lparr>isActive := False\<rparr>
            else u1))"

definition UFO_destroy :: "UFO \<Rightarrow> UFO" where
  "UFO_destroy u = u\<lparr>isActive := False\<rparr>"

subsection \<open>Enemy\<close>

record Enemy = Rect +
  isAlive :: bool
  row :: nat
  col :: nat

definition Enemy_new :: "real \<Rightarrow> real \<Rightarrow> nat \<Rightarrow> nat \<Rightarrow> Enemy" where
  "Enemy_new ex ey erow ecol =
     \<lparr>x = ex, y = ey, width = ENEMY_WIDTH, height = ENEMY_HEIGHT,
      isAlive = True, row = erow, col = ecol\<rparr>"

definition Enemy_shoot :: "Enemy \<Rightarrow> Bullet" where
  "Enemy_shoot e =
     (let bulletX = x e + width e / 2 - BULLET_WIDTH / 2;
          bulletY = y e + height e
      in Bullet_new bulletX bulletY BULLET_SPEED False)"

definition Enemy_destroy :: "Enemy \<Rightarrow> Enemy" where
  "Enemy_destroy e = e\<lparr>isAlive := False\<rparr>"

section \<open>The invader grid (game.ts)\<close>

text \<open>
  A JavaScript exception is a value of the model. Two \<^verbatim>\<open>TypeError\<close>s can arise in the code
  modelled here: calling a method on \<^verbatim>\<open>undefined\<close> (an array read outside the array), and
  spreading a value that is not iterable.
\<close>

datatype js_error = TypeError_undefined | TypeError_not_iterable

record InvaderGrid =
  enemies :: "Enemy list"
  moveDirection :: real
  lastMoveTime :: real
  gridLastShootTime :: real
  baseY :: real
  previousSpeedStage :: nat

definition createEnemies :: "real \<Rightarrow> Enemy list" where
  "createEnemies base =
     concat (map (\<lambda>r. map (\<lambda>c. Enemy_new (ENEMY_START_X + real c * ENEMY_SPACING_X)
                                          (base + real r * ENEMY_SPACING_Y) r c)
                          [0..<ENEMY_COLS])
                 [0..<ENEMY_ROWS])"

definition InvaderGrid_new :: InvaderGrid where
  "InvaderGrid_new =
     \<lparr>enemies = createEnemies ENEMY_START_Y, moveDirection = 1, lastMoveTime = 0,
      gridLastShootTime = 0, baseY = ENEMY_START_Y, previousSpeedStage = 1\<rparr>"

definition aliveEnemies :: "InvaderGrid \<Rightarrow> Enemy list" where
  "aliveEnemies g = filter isAlive (enemies g)"

text \<open>
  \<^verbatim>\<open>Math.max(...vs)\<close> and \<^verbatim>\<open>Math.min(...vs)\<close>. Every call in the source is guarded by a
  test that the array is not empty, so the value at the empty list is never asked for.
\<close>

fun Math_max :: "real list \<Rightarrow> real" where
  "Math_max (v # vs) = fold max vs v"

fun Math_min :: "real list \<Rightarrow> real" where
  "Math_min (v # vs) = fold min vs v"

definition speedStages :: "(real \<times> real) list" where
  "speedStages = [(0, 1.0), (100, 1.5), (200, 2.2), (300, 3.0)]"

text \<open>The \<^verbatim>\<open>for (const stage of speedStages)\<close> loop with its \<^verbatim>\<open>break\<close>.\<close>

fun stageLoop :: "real \<Rightarrow> (real \<times> real) list \<Rightarrow> real \<Rightarrow> real" where
  "stageLoop descentDistance [] currentMultiplier = currentMultiplier"
| "stageLoop descentDistance ((threshold, multiplier) # rest) currentMultiplier =
     (if descentDistance \<ge> threshold then stageLoop descentDistance rest multiplier
      else currentMultiplier)"

text \<open>
  The descent distance, the local \<^verbatim>\<open>descentDistance\<close> of the two functions that follow: the
  \<open>y\<close> of the lowest living enemy minus the base line. It is read only where an enemy is
  alive.
\<close>

definition descentDistance :: "InvaderGrid \<Rightarrow> real" where
  "descentDistance g = Math_max (map y (aliveEnemies g)) - baseY g"

definition getCurrentMoveSpeed :: "InvaderGrid \<Rightarrow> real" where
  "getCurrentMoveSpeed g =
     (if length (aliveEnemies g) = 0 then ENEMY_MOVE_SPEED
      else
        (let lowestY = Math_max (map y (aliveEnemies g));
             initialY = baseY g;
             descent = lowestY - initialY;
             currentMultiplier = stageLoop descent speedStages (snd (speedStages ! 0))
         in ENEMY_MOVE_SPEED * currentMultiplier))"

definition getCurrentSpeedStage :: "InvaderGrid \<Rightarrow> nat" where
  "getCurrentSpeedStage g =
     (if length (aliveEnemies g) = 0 then 1
      else
        (let lowestY = Math_max (map y (aliveEnemies g));
             descent = lowestY - baseY g
         in if descent \<ge> 300 then 4
            else if descent \<ge> 200 then 3
            else if descent \<ge> 100 then 2
            else 1))"

text \<open>
  \<^verbatim>\<open>move\<close> changes the living enemies only. The array \<^verbatim>\<open>aliveEnemies\<close> holds the very objects
  of \<^verbatim>\<open>enemies\<close>, so the loop over it is a map over \<^verbatim>\<open>enemies\<close> that leaves the dead alone.
\<close>

definition move :: "InvaderGrid \<Rightarrow> InvaderGrid" where
  "move g =
     (if length (aliveEnemies g) = 0 then g
      else
        (let leftmostX = Math_min (map x (aliveEnemies g));
             rightmostX = Math_max (map (\<lambda>e. x e + width e) (aliveEnemies g));
             (d, shouldDrop) =
               (if moveDirection g = 1 \<and> rightmostX \<ge> CANVAS_WIDTH - 10 then (- 1, True)
                else if moveDirection g = - 1 \<and> leftmostX \<le> 10 then (1, True)
                else (moveDirection g, False))
         in g\<lparr>moveDirection := d,
              enemies := map (\<lambda>e. if isAlive e
                                    then (if shouldDrop then e\<lparr>y := y e + ENEMY_DROP_DISTANCE\<rparr>
                                          else e\<lparr>x := x e + d * 10\<rparr>)
                                    else e)
                             (enemies g)\<rparr>))"

text \<open>
  \<^verbatim>\<open>reduce\<close> without an initial value starts from the first element; the column is not empty
  where it is called.
\<close>

definition getFrontLineEnemies :: "InvaderGrid \<Rightarrow> Enemy list" where
  "getFrontLineEnemies g =
     concat (map (\<lambda>c. case filter (\<lambda>e. col e = c) (aliveEnemies g) of
                          [] \<Rightarrow> []
                        | e # es \<Rightarrow> [foldl (\<lambda>prev current. if y prev > y current then prev else current) e es])
                 [0..<ENEMY_COLS])"

text \<open>
  \<^verbatim>\<open>randomShoot\<close>: the argument \<open>r\<close> is the value drawn by \<^verbatim>\<open>Math.random()\<close>. A read outside
  the array gives \<^verbatim>\<open>undefined\<close>, and \<^verbatim>\<open>shooter.shoot()\<close> then throws.
\<close>

definition randomShoot :: "real \<Rightarrow> InvaderGrid \<Rightarrow> js_error + Bullet option" where
  "randomShoot r g =
     (if length (aliveEnemies g) = 0 then Inr None
      else
        (let frontLineEnemies = getFrontLineEnemies g
         in if length frontLineEnemies = 0 then Inr None
            else
              (let i = randomInt r 0 (int (length frontLineEnemies) - 1)
               in if 0 \<le> i \<and> i < int (length frontLineEnemies)
                  then Inr (Some (Enemy_shoot (frontLineEnemies ! nat i)))
                  else Inl TypeError_undefined)))"

record GridUpdate =
  bullets :: "Bullet list"
  stageChanged :: bool

definition moveInterval :: "real \<Rightarrow> real" where
  "moveInterval currentSpeed = 1000 / currentSpeed"

definition shootInterval :: "real \<Rightarrow> real" where
  "shootInterval currentSpeed = ENEMY_SHOOT_INTERVAL / (currentSpeed / ENEMY_MOVE_SPEED)"

text \<open>
  \<^verbatim>\<open>InvaderGrid.update\<close> returns the record \<^verbatim>\<open>{ bullets, stageChanged }\<close>, or throws; the grid
  is returned as the call leaves it. Its three blocks (the check of the speed stage, the
  move, the shot) are the three functions that follow.
\<close>

definition checkStage :: "InvaderGrid \<Rightarrow> bool \<times> InvaderGrid" where
  "checkStage g =
     (let currentStage = getCurrentSpeedStage g;
          changed = (currentStage \<noteq> previousSpeedStage g)
      in (changed, if changed then g\<lparr>previousSpeedStage := currentStage\<rparr> else g))"

definition moveIfDue :: "real \<Rightarrow> real \<Rightarrow> InvaderGrid \<Rightarrow> InvaderGrid" where
  "moveIfDue currentTime currentSpeed g =
     (if currentTime - lastMoveTime g \<ge> moveInterval currentSpeed
      then (move g)\<lparr>lastMoveTime := currentTime\<rparr>
      else g)"

definition shootIfDue ::
  "real \<Rightarrow> real \<Rightarrow> real \<Rightarrow> InvaderGrid \<Rightarrow> (js_error + Bullet list) \<times> InvaderGrid" where
  "shootIfDue currentTime currentSpeed r g =
     (if currentTime - gridLastShootTime g \<ge> shootInterval currentSpeed
      then (case randomShoot r g of
              Inl err \<Rightarrow> (Inl err, g)
            | Inr bullet \<Rightarrow>
                (Inr (case bullet of Some b \<Rightarrow> [b] | None \<Rightarrow> []),
                 g\<lparr>gridLastShootTime := currentTime\<rparr>))
      else (Inr [], g))"

definition InvaderGrid_update ::
  "real \<Rightarrow> real \<Rightarrow> real \<Rightarrow> InvaderGrid \<Rightarrow> (js_error + GridUpdate) \<times> InvaderGrid" where
  "InvaderGrid_update deltaTime currentTime r g =
     (let (changed, g1) = checkStage g;
          currentSpeed = getCurrentMoveSpeed g1;
          g2 = moveIfDue currentTime currentSpeed g1;
          (shot, g3) = shootIfDue currentTime currentSpeed r g2
      in case shot of
           Inl err \<Rightarrow> (Inl err, g3)
         | Inr newBullets \<Rightarrow> (Inr \<lparr>bullets = newBullets, stageChanged = changed\<rparr>, g3))"

text \<open>
  \<^verbatim>\<open>checkBulletCollision\<close>: the scan over \<^verbatim>\<open>enemies\<close> in array order. It returns the index of
  the enemy it destroyed (the model's name for the object returned) and the array after
  the call.
\<close>

fun checkBulletCollision_scan :: "Bullet \<Rightarrow> Enemy list \<Rightarrow> nat option \<times> Enemy list" where
  "checkBulletCollision_scan b [] = (None, [])"
| "checkBulletCollision_scan b (e # es) =
     (if isAlive e \<and> checkCollision (getRect b) (getRect e)
      then (Some 0, Enemy_destroy e # es)
      else (case checkBulletCollision_scan b es of
              (found, es') \<Rightarrow> (map_option Suc found, e # es')))"

definition checkBulletCollision :: "Bullet \<Rightarrow> InvaderGrid \<Rightarrow> nat option \<times> InvaderGrid" where
  "checkBulletCollision b g =
     (case checkBulletCollision_scan b (enemies g) of
        (found, es') \<Rightarrow> (found, g\<lparr>enemies := es'\<rparr>))"

definition getAliveCount :: "InvaderGrid \<Rightarrow> nat" where
  "getAliveCount g = length (filter isAlive (enemies g))"

definition checkPlayerCollision :: "Rect \<Rightarrow> InvaderGrid \<Rightarrow> Enemy option" where
  "checkPlayerCollision playerRect g =
     find (\<lambda>e. checkCollision (getRect e) playerRect) (aliveEnemies g)"

definition InvaderGrid_reset :: "InvaderGrid \<Rightarrow> InvaderGrid" where
  "InvaderGrid_reset g =
     g\<lparr>moveDirection := 1, lastMoveTime := 0, gridLastShootTime := 0,
       previousSpeedStage := 1, enemies := createEnemies (baseY g)\<rparr>"

section \<open>The session (the main module)\<close>

text \<open>
  The calls made on the audio manager are recorded, in order, in the field \<open>sounds\<close>; what
  a frame reads from its surroundings (the keys held, the values drawn by
  \<^verbatim>\<open>Math.random()\<close> for the swarm's shooter and for a new UFO, and \<^verbatim>\<open>performance.now()\<close>)
  is the record \<open>Frame\<close>. The game loop around \<^verbatim>\<open>update\<close> (it computes the time step from two
  animation-frame timestamps, draws, and clears the pressed keys) and the drawing are not
  modelled.
\<close>

datatype Sound =
  PlayerShoot | EnemyShoot | EnemyHit | PlayerHit | GameOverSound | GameStart | UfoHit

record Frame =
  isLeftPressed :: bool
  isRightPressed :: bool
  isShootPressed :: bool
  isEnterPressed :: bool
  randomShooter :: real
  randomUfo :: real
  performanceNow :: real

record Session =
  gameState :: GameState
  score :: int
  wave :: int
  player :: Player
  invaderGrid :: InvaderGrid
  playerBullets :: "Bullet list"
  enemyBullets :: "Bullet list"
  ufo :: "UFO option"
  lastFrameTime :: real
  playerRespawnTime :: real
  isPlayerRespawning :: bool
  lastUfoSpawnTime :: real
  sounds :: "Sound list"

definition Session_new :: Session where
  "Session_new =
     \<lparr>gameState = TITLE, score = 0, wave = 1, player = Player_new,
      invaderGrid = InvaderGrid_new, playerBullets = [], enemyBullets = [], ufo = None,
      lastFrameTime = 0, playerRespawnTime = 0, isPlayerRespawning = False,
      lastUfoSpawnTime = 0, sounds = []\<rparr>"

definition play :: "Sound \<Rightarrow> Session \<Rightarrow> Session" where
  "play sound s = s\<lparr>sounds := sounds s @ [sound]\<rparr>"

text \<open>
  A method of the session either completes or throws; in both cases the session is
  returned as the method leaves it. \<open>andThen\<close> runs the rest of a method body only after a
  step that completed.
\<close>

definition andThen ::
  "js_error option \<times> Session \<Rightarrow> (Session \<Rightarrow> js_error option \<times> Session)
     \<Rightarrow> js_error option \<times> Session" where
  "andThen r f = (case r of (None, s) \<Rightarrow> f s | (Some err, s) \<Rightarrow> (Some err, s))"

text \<open>
  The value that \<^verbatim>\<open>updatePlaying\<close> keeps in \<^verbatim>\<open>newEnemyBullets\<close> is whatever
  \<^verbatim>\<open>InvaderGrid.update\<close> returned. Spreading a value into the arguments of \<^verbatim>\<open>push\<close> iterates
  it: an array yields its items, an object literal has no iterator and the spread throws a
  \<^verbatim>\<open>TypeError\<close>. Reading \<^verbatim>\<open>.length\<close> gives the length of an array and \<^verbatim>\<open>undefined\<close> on
  such an object, and \<^verbatim>\<open>undefined > 0\<close> is false.
\<close>

datatype js_value = ArrayValue "Bullet list" | ObjectValue GridUpdate

fun spread :: "js_value \<Rightarrow> js_error + Bullet list" where
  "spread (ArrayValue items) = Inr items"
| "spread (ObjectValue obj) = Inl TypeError_not_iterable"

fun js_length :: "js_value \<Rightarrow> nat option" where
  "js_length (ArrayValue items) = Some (length items)"
| "js_length (ObjectValue obj) = None"

definition lengthPositive :: "js_value \<Rightarrow> bool" where
  "lengthPositive v = (case js_length v of Some n \<Rightarrow> n > 0 | None \<Rightarrow> False)"

definition splice1 :: "nat \<Rightarrow> 'a list \<Rightarrow> 'a list" where
  "splice1 i items = take i items @ drop (Suc i) items"

definition startGame :: "Session \<Rightarrow> Session" where
  "startGame s = play GameStart (s\<lparr>gameState := PLAYING\<rparr>)"

definition gameOver :: "Session \<Rightarrow> Session" where
  "gameOver s = play GameOverSound (s\<lparr>gameState := GAME_OVER\<rparr>)"

definition nextWave :: "Session \<Rightarrow> Session" where
  "nextWave s =
     s\<lparr>wave := wave s + 1,
       invaderGrid := InvaderGrid_reset (invaderGrid s),
       playerBullets := [],
       enemyBullets := []\<rparr>"

definition resetGame :: "Session \<Rightarrow> Session" where
  "resetGame s =
     s\<lparr>gameState := TITLE, score := 0, wave := 1,
       player := Player_reset (player s),
       invaderGrid := InvaderGrid_reset (invaderGrid s),
       playerBullets := [], enemyBullets := [], ufo := None,
       isPlayerRespawning := False, playerRespawnTime := 0, lastUfoSpawnTime := 0\<rparr>"

definition updateTitle :: "Frame \<Rightarrow> Session \<Rightarrow> Session" where
  "updateTitle f s = (if isEnterPressed f then startGame s else s)"

definition updateGameOver :: "Frame \<Rightarrow> Session \<Rightarrow> Session" where
  "updateGameOver f s = (if isEnterPressed f then resetGame s else s)"

definition updateBullets :: "real \<Rightarrow> Session \<Rightarrow> Session" where
  "updateBullets deltaTime s =
     (let s1 = s\<lparr>playerBullets := map (Bullet_update deltaTime) (playerBullets s)\<rparr>;
          s2 = s1\<lparr>enemyBullets := map (Bullet_update deltaTime) (enemyBullets s1)\<rparr>;
          s3 = s2\<lparr>playerBullets := removeInPlace (playerBullets s2) isOutOfBounds\<rparr>
      in s3\<lparr>enemyBullets := removeInPlace (enemyBullets s3) isOutOfBounds\<rparr>)"

definition updateUFO :: "Frame \<Rightarrow> real \<Rightarrow> real \<Rightarrow> Session \<Rightarrow> Session" where
  "updateUFO f deltaTime currentTime s =
     (let s1 = (if ufo s = None \<and> currentTime - lastUfoSpawnTime s \<ge> UFO_SPAWN_INTERVAL
                then s\<lparr>ufo := Some (UFO_new (randomUfo f)), lastUfoSpawnTime := currentTime\<rparr>
                else s)
      in case ufo s1 of
           None \<Rightarrow> s1
         | Some u \<Rightarrow>
             (let u' = UFO_update deltaTime u
              in if \<not> isActive u' then s1\<lparr>ufo := None\<rparr> else s1\<lparr>ufo := Some u'\<rparr>))"

definition startPlayerRespawn :: "Frame \<Rightarrow> Session \<Rightarrow> Session" where
  "startPlayerRespawn f s =
     s\<lparr>isPlayerRespawning := True, playerRespawnTime := performanceNow f\<rparr>"

text \<open>
  The body of the loop over the player's bullets in \<^verbatim>\<open>checkCollisions\<close>, at index \<open>i\<close>.
  The loop only reads inside the array (\<open>playerBulletLoop_completes\<close> below); a read
  outside it would give \<^verbatim>\<open>undefined\<close>, whose use is marked by the error value.
\<close>

definition playerBulletStep :: "nat \<Rightarrow> Session \<Rightarrow> js_error option \<times> Session" where
  "playerBulletStep i s =
     (if i < length (playerBullets s) then
        (let bullet = playerBullets s ! i;
             (hitEnemy, g') = checkBulletCollision bullet (invaderGrid s);
             s1 = s\<lparr>invaderGrid := g'\<rparr>;
             (bulletHit, s2) =
               (if hitEnemy \<noteq> None
                then (True, play EnemyHit
                              (s1\<lparr>playerBullets := splice1 i (playerBullets s1),
                                  score := score s1 + SCORE_PER_ENEMY\<rparr>))
                else (False, s1))
         in (None,
             case ufo s2 of
               Some u \<Rightarrow>
                 (if \<not> bulletHit \<and> isActive u \<and> checkCollision (getRect bullet) (getRect u)
                  then play UfoHit
                         (s2\<lparr>playerBullets := splice1 i (playerBullets s2),
                             ufo := Some (UFO_destroy u),
                             score := score s2 + UFO_SCORE\<rparr>)
                  else s2)
             | None \<Rightarrow> s2))
      else (Some TypeError_undefined, s))"

text \<open>\<open>playerBulletLoop n\<close> runs the body for \<open>i = n - 1\<close> down to \<open>0\<close>.\<close>

fun playerBulletLoop :: "nat \<Rightarrow> Session \<Rightarrow> js_error option \<times> Session" where
  "playerBulletLoop 0 s = (None, s)"
| "playerBulletLoop (Suc i) s = andThen (playerBulletStep i s) (playerBulletLoop i)"

text \<open>The loop over the enemy bullets, from the last index down, with its \<^verbatim>\<open>break\<close>.\<close>

fun enemyBulletLoop :: "Frame \<Rightarrow> nat \<Rightarrow> Session \<Rightarrow> js_error option \<times> Session" where
  "enemyBulletLoop f 0 s = (None, s)"
| "enemyBulletLoop f (Suc i) s =
     (if i < length (enemyBullets s) then
        (let bullet = enemyBullets s ! i
         in if checkCollision (getRect bullet) (getRect (player s))
            then (None,
                  startPlayerRespawn f
                    (play PlayerHit
                       (s\<lparr>enemyBullets := splice1 i (enemyBullets s),
                          player := hit (player s)\<rparr>)))
            else enemyBulletLoop f i s)
      else (Some TypeError_undefined, s))"

definition checkCollisions :: "Frame \<Rightarrow> Session \<Rightarrow> js_error option \<times> Session" where
  "checkCollisions f s =
     (if isPlayerRespawning s then (None, s)
      else andThen (playerBulletLoop (length (playerBullets s)) s)
                   (\<lambda>s1. enemyBulletLoop f (length (enemyBullets s1)) s1))"

definition checkInvaderPlayerCollision :: "Session \<Rightarrow> Session" where
  "checkInvaderPlayerCollision s =
     (if isPlayerRespawning s then s
      else (case checkPlayerCollision (getRect (player s)) (invaderGrid s) of
              Some collidedEnemy \<Rightarrow> gameOver s
            | None \<Rightarrow> s))"

definition checkGameEndConditions :: "Session \<Rightarrow> Session" where
  "checkGameEndConditions s =
     (if lives (player s) \<le> 0 then gameOver s
      else if getAliveCount (invaderGrid s) = 0 then nextWave s
      else s)"

text \<open>
  \<^verbatim>\<open>updatePlaying\<close>. \<open>playerPhase\<close> is the part up to the player's shot, \<open>afterSwarm\<close> the part
  from the \<^verbatim>\<open>push\<close> of the new enemy bullets on, and \<open>endOfFrame\<close> its last three calls:
  \<^verbatim>\<open>checkCollisions\<close>, \<^verbatim>\<open>checkInvaderPlayerCollision\<close> and \<^verbatim>\<open>checkGameEndConditions\<close>.
\<close>

definition playerPhase :: "Frame \<Rightarrow> real \<Rightarrow> real \<Rightarrow> Session \<Rightarrow> Session" where
  "playerPhase f deltaTime currentTime s =
     (let s1 = s\<lparr>player := Player_update deltaTime (isLeftPressed f) (isRightPressed f) (player s)\<rparr>
      in if isShootPressed f \<and> length (playerBullets s1) < MAX_PLAYER_BULLETS
         then (case Player_shoot currentTime (player s1) of
                 (Some bullet, p') \<Rightarrow>
                   play PlayerShoot
                     (s1\<lparr>player := p', playerBullets := playerBullets s1 @ [bullet]\<rparr>)
               | (None, p') \<Rightarrow> s1\<lparr>player := p'\<rparr>)
         else s1)"

definition endOfFrame :: "Frame \<Rightarrow> Session \<Rightarrow> js_error option \<times> Session" where
  "endOfFrame f s =
     andThen (checkCollisions f s)
       (\<lambda>s1. (None, checkGameEndConditions (checkInvaderPlayerCollision s1)))"

definition afterSwarm ::
  "Frame \<Rightarrow> real \<Rightarrow> real \<Rightarrow> js_value \<Rightarrow> Session \<Rightarrow> js_error option \<times> Session" where
  "afterSwarm f deltaTime currentTime newEnemyBullets s =
     (case spread newEnemyBullets of
        Inl err \<Rightarrow> (Some err, s)
      | Inr items \<Rightarrow>
          (let s1 = s\<lparr>enemyBullets := enemyBullets s @ items\<rparr>;
               s2 = (if lengthPositive newEnemyBullets then play EnemyShoot s1 else s1);
               s3 = updateBullets deltaTime s2;
               s4 = updateUFO f deltaTime currentTime s3
           in endOfFrame f s4))"

definition updatePlaying ::
  "Frame \<Rightarrow> real \<Rightarrow> real \<Rightarrow> Session \<Rightarrow> js_error option \<times> Session" where
  "updatePlaying f deltaTime currentTime s =
     (if isPlayerRespawning s \<and> \<not> currentTime - playerRespawnTime s \<ge> 1000 then (None, s)
      else
        (let s0 = (if isPlayerRespawning s
                   then s\<lparr>isPlayerRespawning := False,
                          player := resetPosition (player s),
                          enemyBullets := []\<rparr>
                   else s);
             s1 = playerPhase f deltaTime currentTime s0;
             (result, g') = InvaderGrid_update deltaTime currentTime (randomShooter f) (invaderGrid s1);
             s2 = s1\<lparr>invaderGrid := g'\<rparr>
         in case result of
              Inl err \<Rightarrow> (Some err, s2)
            | Inr newEnemyBullets \<Rightarrow>
                afterSwarm f deltaTime currentTime (ObjectValue newEnemyBullets) s2))"

definition update :: "Frame \<Rightarrow> real \<Rightarrow> real \<Rightarrow> Session \<Rightarrow> js_error option \<times> Session" where
  "update f deltaTime currentTime s =
     (case gameState s of
        TITLE \<Rightarrow> (None, updateTitle f s)
      | PLAYING \<Rightarrow> updatePlaying f deltaTime currentTime s
      | GAME_OVER \<Rightarrow> (None, updateGameOver f s))"

section \<open>Player and UFO motion in double arithmetic\<close>

text \<open>
  A \<^verbatim>\<open>number\<close> of the program is an IEEE 754 double. The sums and products of
  \<^verbatim>\<open>Player.update\<close> and \<^verbatim>\<open>UFO.update\<close> are rounded, may overflow to an infinity and may
  give NaN, and the statements about the range of the player's \<open>x\<close>, about the cancelling
  of its two movements and about the time a UFO takes to cross the playfield depend on
  that. For these statements the two methods are modelled a second time, in double
  arithmetic.

  A \<open>jsnum\<close> is a finite number (given by its value), one of the two infinities, or NaN.
  The two zeros are not told apart: the code modelled here only adds, subtracts,
  multiplies and compares, and \<^verbatim>\<open><\<close>, \<^verbatim>\<open>>\<close> and \<^verbatim>\<open>===\<close> take them for equal.

  \<open>round64 r\<close> is the double nearest to the real \<open>r\<close>, ties to the even significand.
  \<open>binade n r 0\<close> is the exponent \<open>e\<close> with \<open>2 ^ e \<le> r < 2 ^ (e + 1)\<close>, found in at
  most \<open>n\<close> steps; \<open>quantum r\<close> is the distance of neighbouring doubles around \<open>r\<close>, which is
  \<open>2 ^ (e - 52)\<close> for a normal number and \<open>2 ^ (- 1074)\<close> below \<open>2 ^ (- 1022)\<close>. The 2200
  steps are enough: a real of magnitude \<open>overflowBound = 2 ^ 1024 - 2 ^ 970\<close> or more
  rounds to an infinity before its exponent is looked at, and below \<open>2 ^ (- 1022)\<close> the
  quantum no longer depends on the exponent.
\<close>

datatype jsnum = Finite real | PosInf | NegInf | NaN

definition roundHalfEven :: "real \<Rightarrow> int" where
  "roundHalfEven q =
     (let f = \<lfloor>q\<rfloor>; d = q - of_int f
      in if d < 1 / 2 then f else if d > 1 / 2 then f + 1 else if even f then f else f + 1)"

fun binade :: "nat \<Rightarrow> real \<Rightarrow> int \<Rightarrow> int" where
  "binade 0 r e = e"
| "binade (Suc n) r e =
     (if r \<ge> 2 then binade n (r / 2) (e + 1)
      else if r < 1 then binade n (r * 2) (e - 1)
      else e)"

definition quantum :: "real \<Rightarrow> real" where
  "quantum r = 2 powi (max (binade 2200 \<bar>r\<bar> 0) (- 1022) - 52)"

definition overflowBound :: real where
  "overflowBound = 179769313486231580793728971405303415079934132710037826936173778980444968292764750946649017977587207096330286416692887910946555547851940402630657488671505820681908902000708383676273854845817711531764475730270069855571366959622842914819860834936475292719074168444365510704342711559699508093042880177904174497792"

definition round64 :: "real \<Rightarrow> jsnum" where
  "round64 r =
     (if r = 0 then Finite 0
      else if \<bar>r\<bar> \<ge> overflowBound then (if r > 0 then PosInf else NegInf)
      else Finite (of_int (roundHalfEven (r / quantum r)) * quantum r))"

text \<open>
  The operations \<^verbatim>\<open>-a\<close>, \<^verbatim>\<open>a + b\<close>, \<^verbatim>\<open>a - b\<close>, \<^verbatim>\<open>a * b\<close>, \<^verbatim>\<open>a < b\<close> and \<^verbatim>\<open>a > b\<close> on doubles:
  the exact result, rounded; NaN for \<open>\<infinity> - \<infinity>\<close> and \<open>0 * \<infinity>\<close> and for a NaN operand; a
  comparison with NaN is false.
\<close>

fun fneg :: "jsnum \<Rightarrow> jsnum" where
  "fneg (Finite a) = Finite (- a)"
| "fneg PosInf = NegInf"
| "fneg NegInf = PosInf"
| "fneg NaN = NaN"

fun fadd :: "jsnum \<Rightarrow> jsnum \<Rightarrow> jsnum" where
  "fadd NaN b = NaN"
| "fadd a NaN = NaN"
| "fadd (Finite a) (Finite b) = round64 (a + b)"
| "fadd PosInf NegInf = NaN"
| "fadd NegInf PosInf = NaN"
| "fadd PosInf b = PosInf"
| "fadd NegInf b = NegInf"
| "fadd (Finite a) b = b"

definition fsub :: "jsnum \<Rightarrow> jsnum \<Rightarrow> jsnum" where
  "fsub a b = fadd a (fneg b)"

fun fmul :: "jsnum \<Rightarrow> jsnum \<Rightarrow> jsnum" where
  "fmul NaN b = NaN"
| "fmul a NaN = NaN"
| "fmul (Finite a) (Finite b) = round64 (a * b)"
| "fmul (Finite a) PosInf = (if a = 0 then NaN else if a > 0 then PosInf else NegInf)"
| "fmul (Finite a) NegInf = (if a = 0 then NaN else if a > 0 then NegInf else PosInf)"
| "fmul PosInf (Finite b) = (if b = 0 then NaN else if b > 0 then PosInf else NegInf)"
| "fmul NegInf (Finite b) = (if b = 0 then NaN else if b > 0 then NegInf else PosInf)"
| "fmul PosInf PosInf = PosInf"
| "fmul NegInf NegInf = PosInf"
| "fmul PosInf NegInf = NegInf"
| "fmul NegInf PosInf = NegInf"

fun jlt :: "jsnum \<Rightarrow> jsnum \<Rightarrow> bool" where
  "jlt NaN b = False"
| "jlt a NaN = False"
| "jlt (Finite a) (Finite b) = (a < b)"
| "jlt a PosInf = (a \<noteq> PosInf)"
| "jlt NegInf b = (b \<noteq> NegInf)"
| "jlt a b = False"

definition jgt :: "jsnum \<Rightarrow> jsnum \<Rightarrow> bool" where
  "jgt a b = jlt b a"

text \<open>
  \<^verbatim>\<open>Math.max\<close> and \<^verbatim>\<open>Math.min\<close> return NaN if an argument is NaN; \<^verbatim>\<open>clamp(value, min, max)\<close>
  of \<^verbatim>\<open>utils.ts\<close> is \<^verbatim>\<open>Math.max(min, Math.min(max, value))\<close>.
\<close>

definition Math_max64 :: "jsnum \<Rightarrow> jsnum \<Rightarrow> jsnum" where
  "Math_max64 a b = (if a = NaN \<or> b = NaN then NaN else if jlt a b then b else a)"

definition Math_min64 :: "jsnum \<Rightarrow> jsnum \<Rightarrow> jsnum" where
  "Math_min64 a b = (if a = NaN \<or> b = NaN then NaN else if jlt b a then b else a)"

definition clamp64 :: "jsnum \<Rightarrow> jsnum \<Rightarrow> jsnum \<Rightarrow> jsnum" where
  "clamp64 v lo hi = Math_max64 lo (Math_min64 hi v)"

text \<open>
  The player and the UFO with fields that hold doubles. The fields carry the names of the
  source with the suffix \<open>64\<close>; \<open>Moving64\<close> holds the fields that the two classes share.
  The constructors and the two \<^verbatim>\<open>update\<close> methods are those of \<^verbatim>\<open>game.ts\<close>, operation by
  operation: \<^verbatim>\<open>this.speed * this.direction * deltaTime\<close> multiplies from the left.
\<close>

record Rect64 =
  x64 :: jsnum
  y64 :: jsnum
  width64 :: jsnum
  height64 :: jsnum

record Moving64 = Rect64 +
  speed64 :: jsnum

record Player64 = Moving64 +
  lives64 :: int
  lastShootTime64 :: jsnum

record UFO64 = Moving64 +
  isActive64 :: bool
  direction64 :: jsnum

definition Player_new64 :: Player64 where
  "Player_new64 =
     \<lparr>x64 = Finite ((CANVAS_WIDTH - PLAYER_WIDTH) / 2),
      y64 = Finite (CANVAS_HEIGHT - PLAYER_HEIGHT - 20),
      width64 = Finite PLAYER_WIDTH, height64 = Finite PLAYER_HEIGHT,
      speed64 = Finite PLAYER_SPEED, lives64 = PLAYER_LIVES, lastShootTime64 = Finite 0\<rparr>"

definition Player_update64 :: "jsnum \<Rightarrow> bool \<Rightarrow> bool \<Rightarrow> Player64 \<Rightarrow> Player64" where
  "Player_update64 deltaTime moveLeft moveRight p =
     (let p1 = (if moveLeft then p\<lparr>x64 := fsub (x64 p) (fmul (speed64 p) deltaTime)\<rparr> else p);
          p2 = (if moveRight then p1\<lparr>x64 := fadd (x64 p1) (fmul (speed64 p1) deltaTime)\<rparr>
                else p1)
      in p2\<lparr>x64 := clamp64 (x64 p2) (Finite 0) (fsub (Finite CANVAS_WIDTH) (width64 p2))\<rparr>)"

definition UFO_new64 :: "real \<Rightarrow> UFO64" where
  "UFO_new64 r =
     (let d = (if r < 0.5 then Finite 1 else Finite (- 1))
      in \<lparr>x64 = (if d = Finite 1 then fneg (Finite UFO_WIDTH) else Finite CANVAS_WIDTH),
          y64 = Finite UFO_Y_POSITION,
          width64 = Finite UFO_WIDTH, height64 = Finite UFO_HEIGHT,
          speed64 = Finite UFO_SPEED, isActive64 = True, direction64 = d\<rparr>)"

definition UFO_update64 :: "jsnum \<Rightarrow> UFO64 \<Rightarrow> UFO64" where
  "UFO_update64 deltaTime u =
     (if \<not> isActive64 u then u
      else
        (let u1 = u\<lparr>x64 := fadd (x64 u) (fmul (fmul (speed64 u) (direction64 u)) deltaTime)\<rparr>
         in if direction64 u1 = Finite 1 \<and> jgt (x64 u1) (Finite CANVAS_WIDTH)
            then u1\<lparr>isActive64 := False\<rparr>
            else if direction64 u1 = Finite (- 1) \<and> jlt (x64 u1) (fneg (width64 u1))
            then u1\<lparr>isActive64 := False\<rparr>
            else u1))"

section \<open>Notions used in the statements\<close>

text \<open>
  The speed multiplier, as \<^verbatim>\<open>InvaderGrid.draw\<close> and \<^verbatim>\<open>drawUI\<close> compute it from the current
  speed.
\<close>

definition speedMultiplier :: "InvaderGrid \<Rightarrow> real" where
  "speedMultiplier g = getCurrentMoveSpeed g / ENEMY_MOVE_SPEED"

text \<open>
  The edge condition of the specification: moving right with the rightmost living edge
  within 10 units of the right edge of the playfield, or moving left with the leftmost
  living edge within 10 units of the left edge.
\<close>

definition atEdge :: "InvaderGrid \<Rightarrow> bool" where
  "atEdge g \<longleftrightarrow>
     (moveDirection g = 1 \<and>
        Max ((\<lambda>e. x e + width e) ` set (aliveEnemies g)) \<ge> CANVAS_WIDTH - 10) \<or>
     (moveDirection g = - 1 \<and> Min (x ` set (aliveEnemies g)) \<le> 10)"

text \<open>A bullet hits an enemy that is alive and whose box overlaps the bullet's.\<close>

definition hits :: "Bullet \<Rightarrow> Enemy \<Rightarrow> bool" where
  "hits b e \<longleftrightarrow> isAlive e \<and> checkCollision (getRect b) (getRect e)"

text \<open>
  What the loop over the player's bullets has done between two sessions: \<open>kills\<close> counts
  the enemies that died, \<open>ufoKill\<close> is 1 if an active UFO was deactivated, and
  \<open>resolved\<close> ties the score and the number of bullets to these counts and says what the
  loop leaves alone.
\<close>

definition ufoActive :: "Session \<Rightarrow> bool" where
  "ufoActive s = (case ufo s of Some u \<Rightarrow> isActive u | None \<Rightarrow> False)"

definition ufoKill :: "Session \<Rightarrow> Session \<Rightarrow> int" where
  "ufoKill s s' = (if ufoActive s \<and> \<not> ufoActive s' then 1 else 0)"

definition kills :: "Session \<Rightarrow> Session \<Rightarrow> int" where
  "kills s s' = int (getAliveCount (invaderGrid s)) - int (getAliveCount (invaderGrid s'))"

definition resolved :: "Session \<Rightarrow> Session \<Rightarrow> bool" where
  "resolved s s' \<longleftrightarrow>
     score s' = score s + SCORE_PER_ENEMY * kills s s' + UFO_SCORE * ufoKill s s' \<and>
     int (length (playerBullets s')) + kills s s' + ufoKill s s'
       = int (length (playerBullets s)) \<and>
     0 \<le> kills s s' \<and>
     (ufoActive s' \<longrightarrow> ufoActive s) \<and>
     player s' = player s \<and> enemyBullets s' = enemyBullets s \<and>
     gameState s' = gameState s \<and> wave s' = wave s \<and>
     isPlayerRespawning s' = isPlayerRespawning s \<and>
     playerRespawnTime s' = playerRespawnTime s"

text \<open>
  A playing frame waits while the player is respawning and the respawn delay of 1000 ms
  has not passed; \<^verbatim>\<open>updatePlaying\<close> then returns at once.
\<close>

definition waiting :: "real \<Rightarrow> Session \<Rightarrow> bool" where
  "waiting currentTime s \<longleftrightarrow>
     isPlayerRespawning s \<and> \<not> currentTime - playerRespawnTime s \<ge> 1000"

section \<open>Example states\<close>

text \<open>
  Formations used to instantiate the statements: the initial formation moved two drops
  down and 80 units to the left, the initial formation moved 150 units to the right (its
  rightmost edge is then at 798), and the initial formation with every enemy destroyed.
\<close>

definition loweredGrid :: InvaderGrid where
  "loweredGrid =
     InvaderGrid_new\<lparr>enemies := map (\<lambda>e. e\<lparr>x := x e - 80, y := y e + 40\<rparr>)
                                      (enemies InvaderGrid_new)\<rparr>"

definition rightEdgeGrid :: InvaderGrid where
  "rightEdgeGrid =
     InvaderGrid_new\<lparr>enemies := map (\<lambda>e. e\<lparr>x := x e + 150\<rparr>) (enemies InvaderGrid_new)\<rparr>"

definition clearedGrid :: InvaderGrid where
  "clearedGrid = InvaderGrid_new\<lparr>enemies := map Enemy_destroy (enemies InvaderGrid_new)\<rparr>"

text \<open>
  Sessions in play used to instantiate the statements. In \<open>enemyShot\<close> the player's only
  bullet overlaps the enemy of row 4 and column 0 (index 36) and no other; in \<open>ufoShot\<close> it
  overlaps an active UFO and no enemy; in \<open>lastLife\<close> the player has one life left and an
  enemy bullet overlaps the player; in \<open>lostAndCleared\<close> the player has no life left and no
  enemy is alive; in \<open>cleared\<close> no enemy is alive and the player has its three lives;
  \<open>playing\<close> is the new session after the start of the game. In \<open>idleFrame\<close> no key is
  held.
\<close>

definition enemyShot :: Session where
  "enemyShot =
     Session_new\<lparr>gameState := PLAYING,
                  playerBullets := [Bullet_new 100 250 (- BULLET_SPEED) True]\<rparr>"

definition ufoShot :: Session where
  "ufoShot =
     Session_new\<lparr>gameState := PLAYING,
                  playerBullets := [Bullet_new 110 35 (- BULLET_SPEED) True],
                  ufo := Some ((UFO_new 0)\<lparr>x := 100\<rparr>)\<rparr>"

definition lastLife :: Session where
  "lastLife =
     Session_new\<lparr>gameState := PLAYING,
                  player := Player_new\<lparr>lives := 1\<rparr>,
                  enemyBullets := [Bullet_new 390 565 BULLET_SPEED False]\<rparr>"

definition lostAndCleared :: Session where
  "lostAndCleared =
     Session_new\<lparr>gameState := PLAYING,
                  player := Player_new\<lparr>lives := 0\<rparr>,
                  invaderGrid := clearedGrid\<rparr>"

definition cleared :: Session where
  "cleared = Session_new\<lparr>gameState := PLAYING, score := 450, invaderGrid := clearedGrid\<rparr>"

definition playing :: Session where
  "playing = Session_new\<lparr>gameState := PLAYING\<rparr>"

definition idleFrame :: Frame where
  "idleFrame =
     \<lparr>isLeftPressed = False, isRightPressed = False, isShootPressed = False,
      isEnterPressed = False, randomShooter = 1 / 2, randomUfo = 0, performanceNow = 5000\<rparr>"

section \<open>Properties\<close>

lemmas GAME_CONFIG =
  CANVAS_WIDTH_def CANVAS_HEIGHT_def PLAYER_SPEED_def PLAYER_WIDTH_def PLAYER_HEIGHT_def
  PLAYER_LIVES_def BULLET_SPEED_def BULLET_WIDTH_def BULLET_HEIGHT_def MAX_PLAYER_BULLETS_def
  PLAYER_SHOOT_COOLDOWN_def ENEMY_WIDTH_def ENEMY_HEIGHT_def ENEMY_ROWS_def ENEMY_COLS_def
  ENEMY_SPACING_X_def ENEMY_SPACING_Y_def ENEMY_START_X_def ENEMY_START_Y_def
  ENEMY_MOVE_SPEED_def ENEMY_DROP_DISTANCE_def ENEMY_SHOOT_INTERVAL_def SCORE_PER_ENEMY_def
  UFO_SPEED_def UFO_WIDTH_def UFO_HEIGHT_def UFO_SCORE_def UFO_SPAWN_INTERVAL_def
  UFO_Y_POSITION_def

subsection \<open>Player and bullet motion\<close>

lemma Player_update_x:
  "x (Player_update dt l r p) =
     clamp (x p - (if l then pspeed p * dt else 0) + (if r then pspeed p * dt else 0))
           0 (CANVAS_WIDTH - width p)"
  by (simp add: Player_update_def Let_def)

lemma clamp_down: "lo \<le> v \<Longrightarrow> v \<le> hi \<Longrightarrow> 0 \<le> d \<Longrightarrow> clamp (v - d) lo hi \<le> v"
  by (simp add: clamp_def)

lemma clamp_up: "lo \<le> v \<Longrightarrow> v \<le> hi \<Longrightarrow> 0 \<le> d \<Longrightarrow> v \<le> clamp (v + d) lo hi"
  by (simp add: clamp_def)

text \<open>
  C7, as amended. \<^verbatim>\<open>Player.update\<close> and \<^verbatim>\<open>Bullet.update\<close> use the time step as it is
  given, whatever its sign: the bullet's \<open>y\<close> changes by \<open>speed * dt\<close>, the player's \<open>x\<close> by
  \<open>speed * dt\<close> per held key before it is clamped to the playfield. For a time step
  \<open>dt \<ge> 0\<close> a bullet never moves against the sign of its velocity, and a player that is
  inside the playfield and has a non-negative speed never moves opposite to the one key
  held.
\<close>

theorem update_uses_dt_as_given:
  "y (Bullet_update dt b) = y b + speed b * dt \<and>
   x (Player_update dt l r p) =
     clamp (x p - (if l then pspeed p * dt else 0) + (if r then pspeed p * dt else 0))
           0 (CANVAS_WIDTH - width p) \<and>
   (0 \<le> dt \<longrightarrow>
      (speed b \<le> 0 \<longrightarrow> y (Bullet_update dt b) \<le> y b) \<and>
      (0 \<le> speed b \<longrightarrow> y b \<le> y (Bullet_update dt b))) \<and>
   (0 \<le> dt \<and> 0 \<le> pspeed p \<and> 0 \<le> x p \<and> x p \<le> CANVAS_WIDTH - width p \<longrightarrow>
      (l \<and> \<not> r \<longrightarrow> x (Player_update dt l r p) \<le> x p) \<and>
      (r \<and> \<not> l \<longrightarrow> x p \<le> x (Player_update dt l r p)))"
proof -
  have bullet: "y (Bullet_update dt b) = y b + speed b * dt"
    by (simp add: Bullet_update_def)
  have b1: "0 \<le> dt \<Longrightarrow> speed b \<le> 0 \<Longrightarrow> y (Bullet_update dt b) \<le> y b"
    using mult_nonpos_nonneg [of "speed b" dt] by (simp add: bullet)
  have b2: "0 \<le> dt \<Longrightarrow> 0 \<le> speed b \<Longrightarrow> y b \<le> y (Bullet_update dt b)"
    by (simp add: bullet)
  have p1: "x (Player_update dt l r p) \<le> x p"
    if "0 \<le> dt" "0 \<le> pspeed p" "0 \<le> x p" "x p \<le> CANVAS_WIDTH - width p" "l" "\<not> r"
  proof -
    have "0 \<le> pspeed p * dt" using that by simp
    from clamp_down [OF that(3) that(4) this] show ?thesis
      using that(5,6) by (simp add: Player_update_x)
  qed
  have p2: "x p \<le> x (Player_update dt l r p)"
    if "0 \<le> dt" "0 \<le> pspeed p" "0 \<le> x p" "x p \<le> CANVAS_WIDTH - width p" "r" "\<not> l"
  proof -
    have "0 \<le> pspeed p * dt" using that by simp
    from clamp_up [OF that(3) that(4) this] show ?thesis
      using that(5,6) by (simp add: Player_update_x)
  qed
  show ?thesis using bullet Player_update_x b1 b2 p1 p2 by blast
qed

text \<open>
  C7, witness of the amended statement: a new player holding the left key and a player's
  bullet, for one sixtieth of a second.
\<close>

theorem update_uses_dt_as_given_witness:
  "(0::real) \<le> 1 / 60 \<and> speed (Bullet_new 0 100 (- BULLET_SPEED) True) \<le> 0 \<and>
   0 \<le> pspeed Player_new \<and> 0 \<le> x Player_new \<and>
   x Player_new \<le> CANVAS_WIDTH - width Player_new \<and>
   y (Bullet_update (1 / 60) (Bullet_new 0 100 (- BULLET_SPEED) True))
     \<le> y (Bullet_new 0 100 (- BULLET_SPEED) True) \<and>
   x (Player_update (1 / 60) True False Player_new) \<le> x Player_new"
  using update_uses_dt_as_given
          [where dt = "1 / 60" and b = "Bullet_new 0 100 (- BULLET_SPEED) True"
             and p = Player_new and l = True and r = False]
  by (simp add: Player_new_def Bullet_new_def GAME_CONFIG)

text \<open>
  C7, counterexample to the claim as stated: with \<open>dt = -1/10\<close> a new player holding the
  left key moves to the right, and a bullet flying upwards moves down.
\<close>

theorem negative_dt_counterexample:
  "\<not> (x (Player_update (- (1 / 10)) True False Player_new) \<le> x Player_new) \<and>
   \<not> (y (Bullet_update (- (1 / 10)) (Bullet_new 0 100 (- BULLET_SPEED) True)) \<le> 100) \<and>
   speed (Bullet_new 0 100 (- BULLET_SPEED) True) < 0"
  by (simp add: Player_update_def Player_new_def clamp_def Bullet_update_def Bullet_new_def
        GAME_CONFIG)

subsection \<open>Player motion in double arithmetic\<close>

lemma overflowBound_eq: "overflowBound = 2 ^ 1024 - 2 ^ 970"
  by (simp add: overflowBound_def)

lemma binade_numeral:
  "binade (numeral k) r e =
     (if r \<ge> 2 then binade (pred_numeral k) (r / 2) (e + 1)
      else if r < 1 then binade (pred_numeral k) (r * 2) (e - 1)
      else e)"
  by (simp add: numeral_eq_Suc)

lemmas eval64 = round64_def quantum_def roundHalfEven_def overflowBound_def Let_def fsub_def
  binade_numeral

lemma overflowBound_pos: "0 < overflowBound"
  by (simp add: overflowBound_def)

lemma round64_not_NaN [simp]: "round64 r \<noteq> NaN"
  by (simp add: round64_def Let_def)

lemma round64_nonneg: "0 \<le> r \<Longrightarrow> round64 r \<noteq> NegInf"
  using overflowBound_pos by (simp add: round64_def Let_def)

lemma round64_overflow: "overflowBound \<le> r \<Longrightarrow> round64 r = PosInf"
  using overflowBound_pos by (simp add: round64_def)

lemma clamp64_range:
  assumes "0 \<le> h"
  shows "clamp64 v (Finite 0) (Finite h) = NaN \<longleftrightarrow> v = NaN"
    and "v \<noteq> NaN \<Longrightarrow> \<exists>z. clamp64 v (Finite 0) (Finite h) = Finite z \<and> 0 \<le> z \<and> z \<le> h"
  using assms by (cases v; simp add: clamp64_def Math_max64_def Math_min64_def)+

lemma fadd_NaN_iff:
  "fadd a b = NaN \<longleftrightarrow>
     a = NaN \<or> b = NaN \<or> (a = PosInf \<and> b = NegInf) \<or> (a = NegInf \<and> b = PosInf)"
  by (cases a; cases b; simp)

lemma fmul_nonneg:
  "0 \<le> s \<Longrightarrow> 0 \<le> t \<Longrightarrow>
   fmul (Finite s) (Finite t) \<noteq> NaN \<and> fmul (Finite s) (Finite t) \<noteq> NegInf"
  by (simp add: round64_nonneg)

lemma fsub_Finite_PosInf [simp]: "fsub (Finite a) PosInf = NegInf"
  by (simp add: fsub_def)

lemma fsub_Finite_Finite: "fsub (Finite a) (Finite b) = round64 (a - b)"
  by (simp add: fsub_def)

lemma Player_update64_x:
  "x64 (Player_update64 dt l r p) =
     clamp64 (let v1 = (if l then fsub (x64 p) (fmul (speed64 p) dt) else x64 p)
              in if r then fadd v1 (fmul (speed64 p) dt) else v1)
       (Finite 0) (fsub (Finite CANVAS_WIDTH) (width64 p))"
  by (simp add: Player_update64_def Let_def)

lemma moved_NaN_iff:
  assumes "0 \<le> s" "0 \<le> t"
  shows "(let v1 = (if l then fsub (Finite x0) (fmul (Finite s) (Finite t)) else Finite x0)
          in if r then fadd v1 (fmul (Finite s) (Finite t)) else v1) = NaN
         \<longleftrightarrow> l \<and> r \<and> fmul (Finite s) (Finite t) = PosInf"
proof -
  obtain a where a: "fmul (Finite s) (Finite t) = a" by simp
  have a': "a \<noteq> NaN" "a \<noteq> NegInf" using fmul_nonneg [OF assms] a by auto
  show ?thesis
    unfolding a Let_def using a'
    by (cases a; cases l; cases r; simp add: fsub_Finite_Finite fadd_NaN_iff)
qed

lemma Player_update64_others:
  "y64 (Player_update64 dt l r p) = y64 p \<and> width64 (Player_update64 dt l r p) = width64 p \<and>
   height64 (Player_update64 dt l r p) = height64 p \<and>
   speed64 (Player_update64 dt l r p) = speed64 p \<and>
   lives64 (Player_update64 dt l r p) = lives64 p \<and>
   lastShootTime64 (Player_update64 dt l r p) = lastShootTime64 p"
  by (simp add: Player_update64_def Let_def)

lemma Player_update64_same_x:
  "x64 (Player_update64 dt l r p) = x64 (Player_update64 dt l' r' p) \<Longrightarrow>
   Player_update64 dt l r p = Player_update64 dt l' r' p"
  by (simp add: Player_update64_def Let_def)

lemma clamp64_eval:
  "clamp64 NaN lo hi = NaN"
  "clamp64 (Finite v) (Finite 0) (Finite 760) = Finite (max 0 (min 760 v))"
  by (auto simp add: clamp64_def Math_max64_def Math_min64_def)

lemma Player_new64_fields:
  "x64 Player_new64 = Finite 380" "speed64 Player_new64 = Finite 300"
  "fsub (Finite CANVAS_WIDTH) (width64 Player_new64) = Finite 760"
  by (simp_all add: Player_new64_def GAME_CONFIG eval64)

text \<open>
  C8, as amended. The numbers are doubles. The player's width is a field; the difference
  \<open>CANVAS_WIDTH - width\<close> is assumed to be a finite \<open>h \<ge> 0\<close> (it is 760). After
  \<^verbatim>\<open>Player.update\<close>, for every time step and every combination of the two keys, the
  player's \<open>x\<close> is NaN or lies in \<open>[0, h]\<close>. For a finite \<open>x\<close>, a speed \<open>s \<ge> 0\<close> and a time
  step \<open>t \<ge> 0\<close> it is NaN exactly if both keys are held and the product \<open>s * t\<close> overflows
  to infinity. With both keys held the new \<open>x\<close> is the clamped value of
  \<open>(x - speed * dt) + speed * dt\<close> as doubles compute it, with no key held the clamped
  value of \<open>x\<close>; the two movements cancel, and the player is the same as with no key
  held, if \<open>x\<close> is a double, \<open>speed * dt\<close> is finite and the difference \<open>x - speed * dt\<close>
  is a double, so that the subtraction is not rounded. No other field changes.
\<close>

theorem Player_update64_clamped:
  assumes "fsub (Finite CANVAS_WIDTH) (width64 p) = Finite h" "0 \<le> h"
  shows "(x64 (Player_update64 dt l r p) = NaN \<or>
          (\<exists>v. x64 (Player_update64 dt l r p) = Finite v \<and> 0 \<le> v \<and> v \<le> h)) \<and>
         (x64 p = Finite x0 \<and> speed64 p = Finite s \<and> dt = Finite t \<and> 0 \<le> s \<and> 0 \<le> t \<longrightarrow>
            (x64 (Player_update64 dt l r p) = NaN \<longleftrightarrow>
             l \<and> r \<and> fmul (Finite s) (Finite t) = PosInf)) \<and>
         x64 (Player_update64 dt True True p) =
           clamp64 (fadd (fsub (x64 p) (fmul (speed64 p) dt)) (fmul (speed64 p) dt))
             (Finite 0) (Finite h) \<and>
         x64 (Player_update64 dt False False p) = clamp64 (x64 p) (Finite 0) (Finite h) \<and>
         (x64 p = Finite x0 \<and> round64 x0 = Finite x0 \<and> fmul (speed64 p) dt = Finite a \<and>
          round64 (x0 - a) = Finite (x0 - a) \<longrightarrow>
            Player_update64 dt True True p = Player_update64 dt False False p) \<and>
         y64 (Player_update64 dt l r p) = y64 p \<and>
         width64 (Player_update64 dt l r p) = width64 p \<and>
         height64 (Player_update64 dt l r p) = height64 p \<and>
         speed64 (Player_update64 dt l r p) = speed64 p \<and>
         lives64 (Player_update64 dt l r p) = lives64 p \<and>
         lastShootTime64 (Player_update64 dt l r p) = lastShootTime64 p"
proof -
  note X = Player_update64_x [of dt _ _ p, unfolded assms(1)]
  have range: "x64 (Player_update64 dt l r p) = NaN \<or>
          (\<exists>v. x64 (Player_update64 dt l r p) = Finite v \<and> 0 \<le> v \<and> v \<le> h)"
    unfolding X using clamp64_range [OF assms(2)] by blast
  have nan: "x64 (Player_update64 dt l r p) = NaN \<longleftrightarrow>
             l \<and> r \<and> fmul (Finite s) (Finite t) = PosInf"
    if "x64 p = Finite x0" "speed64 p = Finite s" "dt = Finite t" "0 \<le> s" "0 \<le> t"
  proof -
    have "x64 (Player_update64 dt l r p) = NaN \<longleftrightarrow>
          (let v1 = (if l then fsub (x64 p) (fmul (speed64 p) dt) else x64 p)
           in if r then fadd v1 (fmul (speed64 p) dt) else v1) = NaN"
      unfolding X by (rule clamp64_range(1) [OF assms(2)])
    also have "\<dots> \<longleftrightarrow> l \<and> r \<and> fmul (Finite s) (Finite t) = PosInf"
      unfolding that(1,2,3) by (rule moved_NaN_iff [OF that(4,5)])
    finally show ?thesis .
  qed
  have both: "x64 (Player_update64 dt True True p) =
           clamp64 (fadd (fsub (x64 p) (fmul (speed64 p) dt)) (fmul (speed64 p) dt))
             (Finite 0) (Finite h)"
    by (simp add: X)
  have none: "x64 (Player_update64 dt False False p) = clamp64 (x64 p) (Finite 0) (Finite h)"
    by (simp add: X)
  have cancel: "Player_update64 dt True True p = Player_update64 dt False False p"
    if "x64 p = Finite x0" "round64 x0 = Finite x0" "fmul (speed64 p) dt = Finite a"
      "round64 (x0 - a) = Finite (x0 - a)"
  proof (rule Player_update64_same_x)
    have "fadd (fsub (x64 p) (fmul (speed64 p) dt)) (fmul (speed64 p) dt) = x64 p"
      by (simp add: that fsub_Finite_Finite)
    then show "x64 (Player_update64 dt True True p) = x64 (Player_update64 dt False False p)"
      by (simp add: both none)
  qed
  show ?thesis
    using range nan both none cancel Player_update64_others [of dt l r p] by blast
qed

text \<open>
  C8, witness of the amended statement: a new player (\<open>x = 380\<close>, speed 300, width 40) and
  a time step of 1/64 s. The product \<open>300 / 64 = 75 / 16\<close> and the difference
  \<open>380 - 75 / 16\<close> are doubles; with the left key held \<open>x\<close> is not NaN, and with both keys
  held the player is the same as with no key held.
\<close>

theorem Player_update64_clamped_witness:
  "fsub (Finite CANVAS_WIDTH) (width64 Player_new64) = Finite 760 \<and> (0::real) \<le> 760 \<and>
   x64 Player_new64 = Finite 380 \<and> speed64 Player_new64 = Finite 300 \<and>
   (0::real) \<le> 300 \<and> (0::real) \<le> 1 / 64 \<and>
   round64 380 = Finite 380 \<and>
   fmul (speed64 Player_new64) (Finite (1 / 64)) = Finite (75 / 16) \<and>
   round64 (380 - 75 / 16) = Finite (380 - 75 / 16) \<and>
   x64 (Player_update64 (Finite (1 / 64)) True False Player_new64) \<noteq> NaN \<and>
   Player_update64 (Finite (1 / 64)) True True Player_new64
     = Player_update64 (Finite (1 / 64)) False False Player_new64"
proof -
  have h: "fsub (Finite CANVAS_WIDTH) (width64 Player_new64) = Finite 760"
    by (simp add: Player_new64_def GAME_CONFIG eval64)
  have p: "x64 Player_new64 = Finite 380" "speed64 Player_new64 = Finite 300"
    by (simp_all add: Player_new64_def GAME_CONFIG)
  have r: "round64 380 = Finite 380"
    "fmul (speed64 Player_new64) (Finite (1 / 64)) = Finite (75 / 16)"
    "round64 (380 - 75 / 16) = Finite (380 - 75 / 16)"
    by (simp_all add: p eval64)
  have f: "fmul (Finite 300) (Finite (1 / 64)) \<noteq> PosInf"
    using r(2) by (simp add: p)
  note T = Player_update64_clamped [OF h, where dt = "Finite (1 / 64)" and ?x0.0 = 380
      and s = 300 and t = "1 / 64" and a = "75 / 16"]
  have 1: "x64 (Player_update64 (Finite (1 / 64)) True False Player_new64) \<noteq> NaN"
    using T [where l = True and r = False] p by simp
  have 2: "Player_update64 (Finite (1 / 64)) True True Player_new64
     = Player_update64 (Finite (1 / 64)) False False Player_new64"
    using T [where l = True and r = True] p r by simp
  show ?thesis using h p r 1 2 by simp
qed

text \<open>
  C8, counterexample to the claim as stated. With both keys held and a time step of
  \<open>2 ^ 1023\<close> s the product \<open>300 * 2 ^ 1023\<close> overflows, \<open>380 - \<infinity> + \<infinity>\<close> is NaN, and the new
  player's \<open>x\<close> is NaN, which is not in \<open>[0, 760]\<close>. With both keys held and a time step of
  \<open>2 ^ 60\<close> s (a double) the difference \<open>380 - 300 * 2 ^ 60\<close> is rounded to
  \<open>- 300 * 2 ^ 60\<close>, and \<open>x\<close> becomes 0, not the 380 that holding no key gives. With both
  keys held, \<open>x\<close> the double nearest to 0.1 and a time step of the same value, \<open>x\<close> becomes
  \<open>14073748835533 / 2 ^ 47\<close>, which is 0.10000000000000142 and not the \<open>x\<close> that holding no
  key leaves.
\<close>

theorem Player_update64_counterexample:
  "x64 (Player_update64 (Finite (2 ^ 1023)) True True Player_new64) = NaN \<and>
   round64 (2 ^ 60) = Finite (2 ^ 60) \<and>
   x64 (Player_update64 (Finite (2 ^ 60)) True True Player_new64) = Finite 0 \<and>
   x64 (Player_update64 (Finite (2 ^ 60)) False False Player_new64) = Finite 380 \<and>
   round64 (1 / 10) = Finite (3602879701896397 / 36028797018963968) \<and>
   x64 (Player_update64 (round64 (1 / 10)) True True (Player_new64\<lparr>x64 := round64 (1 / 10)\<rparr>))
     = Finite (14073748835533 / 140737488355328) \<and>
   x64 (Player_update64 (round64 (1 / 10)) False False (Player_new64\<lparr>x64 := round64 (1 / 10)\<rparr>))
     = Finite (3602879701896397 / 36028797018963968)"
proof -
  have b: "fmul (Finite 300) (Finite (2 ^ 1023)) = PosInf"
    by (simp add: round64_overflow overflowBound_def)
  have c: "x64 (Player_update64 (Finite (2 ^ 1023)) True True Player_new64) = NaN"
    by (simp only: Player_update64_x Player_new64_fields b Let_def if_True fsub_Finite_PosInf
          fadd.simps clamp64_eval)
  have d: "round64 (2 ^ 60) = Finite (2 ^ 60)"
    by (simp add: eval64)
  have e1: "fmul (Finite 300) (Finite (2 ^ 60)) = Finite (300 * 2 ^ 60)"
    by (simp add: eval64)
  have e2: "fsub (Finite 380) (Finite (300 * 2 ^ 60)) = Finite (- (300 * 2 ^ 60))"
    by (simp add: eval64)
  have e3: "fadd (Finite (- (300 * 2 ^ 60))) (Finite (300 * 2 ^ 60)) = Finite 0"
    by (simp add: eval64)
  have e: "x64 (Player_update64 (Finite (2 ^ 60)) True True Player_new64) = Finite 0"
    by (simp only: Player_update64_x Player_new64_fields e1 e2 e3 Let_def if_True clamp64_eval)
      simp
  have f: "x64 (Player_update64 (Finite (2 ^ 60)) False False Player_new64) = Finite 380"
    by (simp only: Player_update64_x Player_new64_fields Let_def if_False clamp64_eval) simp
  have g: "round64 (1 / 10) = Finite (3602879701896397 / 36028797018963968)"
    by (simp add: eval64)
  let ?p = "Player_new64\<lparr>x64 := Finite (3602879701896397 / 36028797018963968)\<rparr>"
  have pf: "x64 ?p = Finite (3602879701896397 / 36028797018963968)"
    "speed64 ?p = Finite 300"
    "fsub (Finite CANVAS_WIDTH) (width64 ?p) = Finite 760"
    using Player_new64_fields by (simp_all add: Player_new64_def)
  have h1: "fmul (Finite 300) (Finite (3602879701896397 / 36028797018963968)) = Finite 30"
    by (simp add: eval64)
  have h2: "fsub (Finite (3602879701896397 / 36028797018963968)) (Finite 30)
              = Finite (- (4208050901824307 / 140737488355328))"
    by (simp add: eval64)
  have h3: "fadd (Finite (- (4208050901824307 / 140737488355328))) (Finite 30)
              = Finite (14073748835533 / 140737488355328)"
    by (simp add: eval64)
  have h: "x64 (Player_update64 (round64 (1 / 10)) True True
                  (Player_new64\<lparr>x64 := round64 (1 / 10)\<rparr>))
     = Finite (14073748835533 / 140737488355328)"
    unfolding g
    by (simp only: Player_update64_x pf h1 h2 h3 Let_def if_True clamp64_eval) simp
  have i: "x64 (Player_update64 (round64 (1 / 10)) False False
                  (Player_new64\<lparr>x64 := round64 (1 / 10)\<rparr>))
     = Finite (3602879701896397 / 36028797018963968)"
    unfolding g
    by (simp only: Player_update64_x pf Let_def if_False clamp64_eval) simp
  show ?thesis using c d e f g h i by simp
qed

subsection \<open>Shooting\<close>

text \<open>
  C9, as amended. \<^verbatim>\<open>shoot(now)\<close> returns \<^verbatim>\<open>null\<close> exactly if
  \<open>now - lastShootTime < PLAYER_SHOOT_COOLDOWN\<close>. Otherwise it sets \<open>lastShootTime\<close> to \<open>now\<close>
  and returns a bullet of the player that moves upwards (negative speed), whose centre is
  the player's centre horizontally and whose lower edge is the player's upper edge. Two
  successive calls whose times differ by less than the cooldown give at most one bullet;
  they give exactly one if the first call is off cooldown.
\<close>

theorem Player_shoot_cooldown:
  "(fst (Player_shoot now p) = None \<longleftrightarrow> now - lastShootTime p < PLAYER_SHOOT_COOLDOWN) \<and>
   (\<not> now - lastShootTime p < PLAYER_SHOOT_COOLDOWN \<longrightarrow>
      (\<exists>b. Player_shoot now p = (Some b, p\<lparr>lastShootTime := now\<rparr>) \<and>
           speed b < 0 \<and> isPlayerBullet b \<and>
           x b + width b / 2 = x p + width p / 2 \<and>
           y b + height b = y p)) \<and>
   (\<bar>t2 - t1\<bar> < PLAYER_SHOOT_COOLDOWN \<longrightarrow>
      \<not> (fst (Player_shoot t1 p) \<noteq> None \<and>
         fst (Player_shoot t2 (snd (Player_shoot t1 p))) \<noteq> None) \<and>
      (canShoot t1 p \<longrightarrow>
         fst (Player_shoot t1 p) \<noteq> None \<and>
         fst (Player_shoot t2 (snd (Player_shoot t1 p))) = None))"
  by (auto simp add: Player_shoot_def canShoot_def Let_def Bullet_new_def GAME_CONFIG)

text \<open>
  C9, witness of the amended statement: a new player shoots at 1000 ms and again at
  1100 ms; the first call gives a bullet, the second none.
\<close>

theorem Player_shoot_cooldown_witness:
  "\<not> 1000 - lastShootTime Player_new < PLAYER_SHOOT_COOLDOWN \<and>
   \<bar>1100 - 1000\<bar> < PLAYER_SHOOT_COOLDOWN \<and> canShoot 1000 Player_new \<and>
   (\<exists>b. Player_shoot 1000 Player_new = (Some b, Player_new\<lparr>lastShootTime := 1000\<rparr>) \<and>
        speed b < 0 \<and> isPlayerBullet b) \<and>
   fst (Player_shoot 1000 Player_new) \<noteq> None \<and>
   fst (Player_shoot 1100 (snd (Player_shoot 1000 Player_new))) = None"
proof -
  have h: "\<not> 1000 - lastShootTime Player_new < PLAYER_SHOOT_COOLDOWN"
    "\<bar>1100 - 1000\<bar> < PLAYER_SHOOT_COOLDOWN" "canShoot 1000 Player_new"
    by (simp_all add: canShoot_def Player_new_def GAME_CONFIG)
  show ?thesis
    using h Player_shoot_cooldown
              [where now = 1000 and p = Player_new and ?t1.0 = 1000 and ?t2.0 = 1100]
    by blast
qed

text \<open>
  C9, counterexample to the claim as stated: a player that has shot at 1000 ms and is asked
  to shoot again at 1050 ms and at 1100 ms gives no bullet in either of these two calls,
  although their times differ by less than the cooldown.
\<close>

theorem two_shots_counterexample:
  "fst (Player_shoot 1000 Player_new) \<noteq> None \<and>
   \<bar>1100 - 1050\<bar> < PLAYER_SHOOT_COOLDOWN \<and>
   fst (Player_shoot 1050 (snd (Player_shoot 1000 Player_new))) = None \<and>
   fst (Player_shoot 1100 (snd (Player_shoot 1050 (snd (Player_shoot 1000 Player_new)))))
     = None"
  by (simp add: Player_shoot_def canShoot_def Player_new_def GAME_CONFIG)

subsection \<open>The UFO's traverse\<close>

lemma UFO_update64_inactive: "\<not> isActive64 u \<Longrightarrow> UFO_update64 dt u = u"
  by (simp add: UFO_update64_def)

lemma UFO_update64_direction [simp]: "direction64 (UFO_update64 dt u) = direction64 u"
  by (simp add: UFO_update64_def Let_def)

lemma UFO_update64_width [simp]: "width64 (UFO_update64 dt u) = width64 u"
  by (simp add: UFO_update64_def Let_def)

lemma UFO_update64_active:
  assumes "isActive64 u"
  shows "x64 (UFO_update64 dt u) = fadd (x64 u) (fmul (fmul (speed64 u) (direction64 u)) dt)"
    and "isActive64 (UFO_update64 dt u) \<longleftrightarrow>
           \<not> (direction64 u = Finite 1 \<and> jgt (x64 (UFO_update64 dt u)) (Finite CANVAS_WIDTH)) \<and>
           \<not> (direction64 u = Finite (- 1) \<and> jlt (x64 (UFO_update64 dt u)) (fneg (width64 u)))"
  using assms by (auto simp add: UFO_update64_def Let_def)

lemma UFO_update64_stays_inactive: "isActive64 (UFO_update64 dt u) \<Longrightarrow> isActive64 u"
  by (auto simp add: UFO_update64_def Let_def split: if_splits)

lemma UFO_fold64_inactive: "\<not> isActive64 u \<Longrightarrow> fold UFO_update64 dts u = u"
  by (induction dts) (simp_all add: UFO_update64_inactive)

lemma UFO_fold64_was_active: "isActive64 (fold UFO_update64 dts u) \<Longrightarrow> isActive64 u"
  by (cases "isActive64 u") (simp_all add: UFO_fold64_inactive)

lemma UFO_fold64_direction [simp]: "direction64 (fold UFO_update64 dts u) = direction64 u"
  by (induction dts arbitrary: u) simp_all

lemma UFO_fold64_width [simp]: "width64 (fold UFO_update64 dts u) = width64 u"
  by (induction dts arbitrary: u) simp_all

lemma UFO_fold64_within:
  assumes "dts \<noteq> []" "isActive64 (fold UFO_update64 dts u)"
  shows "\<not> (direction64 u = Finite 1 \<and> jgt (x64 (fold UFO_update64 dts u)) (Finite CANVAS_WIDTH)) \<and>
         \<not> (direction64 u = Finite (- 1) \<and> jlt (x64 (fold UFO_update64 dts u)) (fneg (width64 u)))"
proof -
  from assms(1) obtain ds d where ds: "dts = ds @ [d]"
    by (cases dts rule: rev_cases) auto
  let ?v = "fold UFO_update64 ds u"
  have f: "fold UFO_update64 dts u = UFO_update64 d ?v"
    by (simp add: ds)
  from assms(2) have a: "isActive64 (UFO_update64 d ?v)" by (simp add: f)
  then have "isActive64 ?v" by (rule UFO_update64_stays_inactive)
  from UFO_update64_active(2) [OF this, of d] a show ?thesis
    by (simp add: f)
qed

lemma UFO_new64_fields:
  "x64 (UFO_new64 0) = Finite (- 50)" "speed64 (UFO_new64 0) = Finite 100"
  "direction64 (UFO_new64 0) = Finite 1" "isActive64 (UFO_new64 0)"
  "width64 (UFO_new64 0) = Finite 50"
  by (simp_all add: UFO_new64_def GAME_CONFIG)

lemma UFO_step_eval:
  "isActive64 u \<Longrightarrow> direction64 u = Finite 1 \<Longrightarrow> speed64 u = Finite 100 \<Longrightarrow>
   x64 u = Finite a \<Longrightarrow> fadd (Finite a) (fmul (Finite 100) (Finite d)) = Finite b \<Longrightarrow>
   b \<le> 800 \<Longrightarrow>
   UFO_update64 (Finite d) u = u\<lparr>x64 := Finite b\<rparr>"
  by (simp add: UFO_update64_def Let_def jgt_def CANVAS_WIDTH_def eval64)

text \<open>
  C6, as amended. The numbers are doubles. \<^verbatim>\<open>UFO.update\<close> leaves an inactive UFO as it
  is, whatever the time steps. For an active UFO it sets \<open>x\<close> to
  \<open>x + speed * direction * dt\<close> as doubles compute it, and the UFO is active afterwards
  exactly if it has not left the playfield through the opposite edge: heading right
  (\<open>direction = 1\<close>) it is deactivated exactly if the new \<open>x\<close> is greater than
  \<open>CANVAS_WIDTH\<close>, heading left (\<open>direction = - 1\<close>) exactly if the new \<open>x\<close> is less than
  \<open>- width\<close>. The comparisons are strict: a UFO that stands on the edge is active. Over a
  sequence of updates, a UFO that is active at the end was active at the start, and after
  at least one update it has not passed the opposite edge. The update changes no field
  but \<open>x\<close> and \<open>isActive\<close>. Nothing is said of the sum of the time steps: the position is
  the rounded sum of rounded products.
\<close>

theorem UFO_update64_edge:
  "(\<not> isActive64 u \<longrightarrow> UFO_update64 dt u = u \<and> fold UFO_update64 dts u = u) \<and>
   (isActive64 u \<longrightarrow>
      x64 (UFO_update64 dt u) = fadd (x64 u) (fmul (fmul (speed64 u) (direction64 u)) dt) \<and>
      (isActive64 (UFO_update64 dt u) \<longleftrightarrow>
         \<not> (direction64 u = Finite 1 \<and> jgt (x64 (UFO_update64 dt u)) (Finite CANVAS_WIDTH)) \<and>
         \<not> (direction64 u = Finite (- 1) \<and>
            jlt (x64 (UFO_update64 dt u)) (fneg (width64 u))))) \<and>
   (isActive64 (fold UFO_update64 dts u) \<longrightarrow> isActive64 u) \<and>
   (dts \<noteq> [] \<and> isActive64 (fold UFO_update64 dts u) \<longrightarrow>
      \<not> (direction64 u = Finite 1 \<and>
         jgt (x64 (fold UFO_update64 dts u)) (Finite CANVAS_WIDTH)) \<and>
      \<not> (direction64 u = Finite (- 1) \<and>
         jlt (x64 (fold UFO_update64 dts u)) (fneg (width64 u)))) \<and>
   direction64 (UFO_update64 dt u) = direction64 u \<and>
   width64 (UFO_update64 dt u) = width64 u \<and>
   speed64 (UFO_update64 dt u) = speed64 u \<and>
   y64 (UFO_update64 dt u) = y64 u \<and> height64 (UFO_update64 dt u) = height64 u"
proof -
  have others: "speed64 (UFO_update64 dt u) = speed64 u \<and>
    y64 (UFO_update64 dt u) = y64 u \<and> height64 (UFO_update64 dt u) = height64 u"
    by (simp add: UFO_update64_def Let_def)
  show ?thesis
    using UFO_update64_inactive [of u dt] UFO_fold64_inactive [of u dts]
      UFO_update64_active [of u dt] UFO_fold64_was_active [of dts u]
      UFO_fold64_within [of dts u] others
    by (simp del: fold_simps)
qed

text \<open>
  C6, witness of the amended statement: a new UFO heading right from \<open>x = - 50\<close>. One
  update of 9 s puts it at \<open>x = 850\<close>, beyond the right edge, and deactivates it, and a
  further update leaves it as it is; after one update of 1 s it is active and not beyond
  the right edge.
\<close>

theorem UFO_update64_edge_witness:
  "isActive64 (UFO_new64 0) \<and> direction64 (UFO_new64 0) = Finite 1 \<and>
   x64 (UFO_update64 (Finite 9) (UFO_new64 0)) = Finite 850 \<and>
   jgt (x64 (UFO_update64 (Finite 9) (UFO_new64 0))) (Finite CANVAS_WIDTH) \<and>
   \<not> isActive64 (UFO_update64 (Finite 9) (UFO_new64 0)) \<and>
   UFO_update64 (Finite 1) (UFO_update64 (Finite 9) (UFO_new64 0))
     = UFO_update64 (Finite 9) (UFO_new64 0) \<and>
   [Finite 1] \<noteq> [] \<and> isActive64 (fold UFO_update64 [Finite 1] (UFO_new64 0)) \<and>
   \<not> jgt (x64 (fold UFO_update64 [Finite 1] (UFO_new64 0))) (Finite CANVAS_WIDTH)"
proof -
  note A = UFO_update64_edge [where u = "UFO_new64 0" and dt = "Finite 9" and dts = "[Finite 1]"]
  note B = UFO_update64_edge [where u = "UFO_update64 (Finite 9) (UFO_new64 0)"
      and dt = "Finite 1" and dts = "[]"]
  have s: "fadd (Finite (- 50)) (fmul (fmul (Finite 100) (Finite 1)) (Finite 9)) = Finite 850"
    by (simp add: eval64)
  have x: "x64 (UFO_update64 (Finite 9) (UFO_new64 0)) = Finite 850"
    using A unfolding s [symmetric] by (simp only: UFO_new64_fields simp_thms)
  have g: "jgt (Finite 850) (Finite CANVAS_WIDTH)"
    by (simp add: jgt_def CANVAS_WIDTH_def)
  have n: "\<not> isActive64 (UFO_update64 (Finite 9) (UFO_new64 0))"
    using A g by (simp add: UFO_new64_fields x)
  have k: "UFO_update64 (Finite 1) (UFO_update64 (Finite 9) (UFO_new64 0))
     = UFO_update64 (Finite 9) (UFO_new64 0)"
    using B n by simp
  have s1: "fadd (Finite (- 50)) (fmul (Finite 100) (Finite 1)) = Finite 50"
    by (simp add: eval64)
  have u1: "UFO_update64 (Finite 1) (UFO_new64 0) = (UFO_new64 0)\<lparr>x64 := Finite 50\<rparr>"
    by (rule UFO_step_eval [OF _ _ _ _ s1]) (simp_all add: UFO_new64_fields)
  have a: "isActive64 (fold UFO_update64 [Finite 1] (UFO_new64 0))"
    by (simp add: u1 UFO_new64_fields)
  have w: "\<not> jgt (x64 (fold UFO_update64 [Finite 1] (UFO_new64 0))) (Finite CANVAS_WIDTH)"
    using A a by (simp add: UFO_new64_fields del: fold_simps)
  show ?thesis
    using x g n k a w by (simp add: UFO_new64_fields del: fold_simps)
qed

text \<open>
  C6, counterexample to the claim as stated: a UFO heading right from \<open>x = - width\<close>,
  updated twice by 4.25 s (a double, and so is every number computed on the way), has
  been updated for exactly \<open>(CANVAS_WIDTH + UFO_WIDTH) / UFO_SPEED = 8.5\<close> seconds; it
  stands at \<open>x = CANVAS_WIDTH\<close> and is still active.
\<close>

theorem UFO_update64_counterexample:
  "round64 (17 / 4) = Finite (17 / 4) \<and>
   fadd (Finite (17 / 4)) (Finite (17 / 4)) = Finite ((CANVAS_WIDTH + UFO_WIDTH) / UFO_SPEED) \<and>
   x64 (UFO_new64 0) = fneg (Finite UFO_WIDTH) \<and> direction64 (UFO_new64 0) = Finite 1 \<and>
   x64 (fold UFO_update64 [Finite (17 / 4), Finite (17 / 4)] (UFO_new64 0)) = Finite CANVAS_WIDTH \<and>
   isActive64 (fold UFO_update64 [Finite (17 / 4), Finite (17 / 4)] (UFO_new64 0))"
proof -
  have r: "round64 (17 / 4) = Finite (17 / 4)"
    "fadd (Finite (17 / 4)) (Finite (17 / 4)) = Finite ((CANVAS_WIDTH + UFO_WIDTH) / UFO_SPEED)"
    by (simp_all add: eval64 GAME_CONFIG)
  have s1: "fadd (Finite (- 50)) (fmul (Finite 100) (Finite (17 / 4))) = Finite 375"
    by (simp add: eval64)
  have s2: "fadd (Finite 375) (fmul (Finite 100) (Finite (17 / 4))) = Finite 800"
    by (simp add: eval64)
  have u1: "UFO_update64 (Finite (17 / 4)) (UFO_new64 0) = (UFO_new64 0)\<lparr>x64 := Finite 375\<rparr>"
    by (rule UFO_step_eval [OF _ _ _ _ s1]) (simp_all add: UFO_new64_fields)
  have u2: "UFO_update64 (Finite (17 / 4)) ((UFO_new64 0)\<lparr>x64 := Finite 375\<rparr>)
              = (UFO_new64 0)\<lparr>x64 := Finite 375, x64 := Finite 800\<rparr>"
    by (rule UFO_step_eval [OF _ _ _ _ s2]) (simp_all add: UFO_new64_fields)
  show ?thesis
    using r by (simp add: u1 u2 UFO_new64_fields) (simp add: GAME_CONFIG)
qed

text \<open>
  Why the statement above says nothing of the sum of the time steps. A UFO heading right
  from \<open>x = - 50\<close> that is updated 85 times by the double nearest to 0.1 s, which is
  greater than 0.1, has been updated for more than 8.5 s; in doubles it stands at
  \<open>x = 800\<close> exactly and is still active. Updated 255 times by the double nearest to
  1/30 s, which is less than 1/30, it has been updated for less than 8.5 s; in doubles it
  stands at \<open>x = 800.0000000000022\<close> and is inactive.
\<close>

lemma replicate_numeral': "replicate (numeral k) a = a # replicate (pred_numeral k) a"
  by (simp add: numeral_eq_Suc)

lemma round64_tenth: "round64 (1 / 10) = Finite (3602879701896397 / 36028797018963968)"
  by (simp add: eval64)

lemma round64_thirtieth: "round64 (1 / 30) = Finite (4803839602528529 / 144115188075855872)"
  by (simp add: eval64)

lemma UFO_right_step:
  "UFO_update64 (Finite d)
     \<lparr>x64 = Finite a, y64 = yy, width64 = w, height64 = hh, speed64 = Finite 100,
      isActive64 = True, direction64 = Finite 1\<rparr>
   = (case fadd (Finite a) (fmul (Finite 100) (Finite d)) of
        Finite b \<Rightarrow> \<lparr>x64 = Finite b, y64 = yy, width64 = w, height64 = hh, speed64 = Finite 100,
                      isActive64 = (b \<le> 800), direction64 = Finite 1\<rparr>
      | PosInf \<Rightarrow> \<lparr>x64 = PosInf, y64 = yy, width64 = w, height64 = hh, speed64 = Finite 100,
                      isActive64 = False, direction64 = Finite 1\<rparr>
      | NegInf \<Rightarrow> \<lparr>x64 = NegInf, y64 = yy, width64 = w, height64 = hh, speed64 = Finite 100,
                      isActive64 = True, direction64 = Finite 1\<rparr>
      | NaN \<Rightarrow> \<lparr>x64 = NaN, y64 = yy, width64 = w, height64 = hh, speed64 = Finite 100,
                      isActive64 = True, direction64 = Finite 1\<rparr>)"
  by (cases "fadd (Finite a) (fmul (Finite 100) (Finite d))")
     (auto simp add: UFO_update64_def Let_def jgt_def CANVAS_WIDTH_def eval64)

lemma UFO_tenths:
  "x64 (fold UFO_update64 (replicate 85 (round64 (1 / 10))) (UFO_new64 0)) = Finite 800 \<and>
   isActive64 (fold UFO_update64 (replicate 85 (round64 (1 / 10))) (UFO_new64 0)) \<and>
   85 * (3602879701896397 / 36028797018963968) > (CANVAS_WIDTH + UFO_WIDTH) / UFO_SPEED"
  unfolding round64_tenth
  by (simp add: replicate_numeral' UFO_new64_def GAME_CONFIG UFO_right_step eval64)

lemma UFO_thirtieths:
  "x64 (fold UFO_update64 (replicate 255 (round64 (1 / 30))) (UFO_new64 0))
     = Finite (7036874417766419 / 8796093022208) \<and>
   \<not> isActive64 (fold UFO_update64 (replicate 255 (round64 (1 / 30))) (UFO_new64 0)) \<and>
   255 * (4803839602528529 / 144115188075855872) \<le> (CANVAS_WIDTH + UFO_WIDTH) / UFO_SPEED"
  unfolding round64_thirtieth
  by (simp add: replicate_numeral' UFO_new64_def GAME_CONFIG UFO_right_step eval64)

subsection \<open>Speed stages of the swarm\<close>

lemma stageLoop_speedStages:
  "stageLoop d speedStages c =
     (if d < 0 then c else if d < 100 then 1 else if d < 200 then 3 / 2
      else if d < 300 then 11 / 5 else 3)"
  by (simp add: speedStages_def)

lemma speedMultiplier_alive:
  "aliveEnemies g \<noteq> [] \<Longrightarrow>
   speedMultiplier g =
     (if descentDistance g < 100 then 1 else if descentDistance g < 200 then 3 / 2
      else if descentDistance g < 300 then 11 / 5 else 3)"
  by (simp add: speedMultiplier_def getCurrentMoveSpeed_def descentDistance_def Let_def
        stageLoop_speedStages ENEMY_MOVE_SPEED_def) (simp add: speedStages_def)

lemma getCurrentSpeedStage_alive:
  "aliveEnemies g \<noteq> [] \<Longrightarrow>
   getCurrentSpeedStage g =
     (if descentDistance g < 100 then 1 else if descentDistance g < 200 then 2
      else if descentDistance g < 300 then 3 else 4)"
  by (simp add: getCurrentSpeedStage_def descentDistance_def Let_def)

lemma randomInt_range:
  assumes "0 \<le> r" "r < 1" "0 < n"
  shows "0 \<le> randomInt r 0 (n - 1) \<and> randomInt r 0 (n - 1) < n"
proof -
  have "r * of_int n < of_int n" using assms by simp
  then have "\<lfloor>r * of_int n\<rfloor> < n" by (simp add: floor_less_iff)
  moreover have "0 \<le> \<lfloor>r * of_int n\<rfloor>" using assms by simp
  ultimately show ?thesis by (simp add: randomInt_def)
qed

lemma randomShoot_completes: "0 \<le> r \<Longrightarrow> r < 1 \<Longrightarrow> \<exists>b. randomShoot r g = Inr b"
  using randomInt_range [of r "int (length (getFrontLineEnemies g))"]
  by (auto simp add: randomShoot_def Let_def)

lemma randomShoot_no_error: "0 \<le> r \<Longrightarrow> r < 1 \<Longrightarrow> randomShoot r g \<noteq> Inl e"
  using randomShoot_completes [of r g] by auto

lemma checkStage_snd: "snd (checkStage g) = g\<lparr>previousSpeedStage := getCurrentSpeedStage g\<rparr>"
  by (simp add: checkStage_def Let_def)

lemma getCurrentMoveSpeed_prev [simp]:
  "getCurrentMoveSpeed (g\<lparr>previousSpeedStage := n\<rparr>) = getCurrentMoveSpeed g"
  by (simp add: getCurrentMoveSpeed_def aliveEnemies_def)

lemma move_gridLastShootTime [simp]: "gridLastShootTime (move g) = gridLastShootTime g"
  by (simp add: move_def Let_def split: prod.splits)

lemma move_lastMoveTime [simp]: "lastMoveTime (move g) = lastMoveTime g"
  by (simp add: move_def Let_def split: prod.splits)

lemma moveIfDue_lastMoveTime:
  "lastMoveTime (moveIfDue now v g) =
     (if now - lastMoveTime g \<ge> moveInterval v then now else lastMoveTime g)"
  by (simp add: moveIfDue_def)

lemma moveIfDue_gridLastShootTime [simp]:
  "gridLastShootTime (moveIfDue now v g) = gridLastShootTime g"
  by (simp add: moveIfDue_def)

lemma shootIfDue_lastMoveTime [simp]:
  "lastMoveTime (snd (shootIfDue now v r g)) = lastMoveTime g"
  by (simp add: shootIfDue_def split: sum.split)

lemma shootIfDue_gridLastShootTime:
  "0 \<le> r \<Longrightarrow> r < 1 \<Longrightarrow>
   gridLastShootTime (snd (shootIfDue now v r g)) =
     (if now - gridLastShootTime g \<ge> shootInterval v then now else gridLastShootTime g)"
  by (simp add: shootIfDue_def randomShoot_no_error split: sum.split)

lemma InvaderGrid_update_snd:
  "snd (InvaderGrid_update dt now r g) =
     snd (shootIfDue now (getCurrentMoveSpeed g) r
            (moveIfDue now (getCurrentMoveSpeed g) (snd (checkStage g))))"
  by (simp add: InvaderGrid_update_def case_prod_beta Let_def checkStage_snd split: sum.split)

lemma update_lastMoveTime:
  "lastMoveTime (snd (InvaderGrid_update dt now r g)) =
     (if now - lastMoveTime g \<ge> moveInterval (getCurrentMoveSpeed g)
      then now else lastMoveTime g)"
  by (simp add: InvaderGrid_update_snd moveIfDue_lastMoveTime checkStage_snd)

lemma update_shootTime:
  "0 \<le> r \<Longrightarrow> r < 1 \<Longrightarrow>
   gridLastShootTime (snd (InvaderGrid_update dt now r g)) =
     (if now - gridLastShootTime g \<ge> shootInterval (getCurrentMoveSpeed g)
      then now else gridLastShootTime g)"
  by (simp add: InvaderGrid_update_snd shootIfDue_gridLastShootTime checkStage_snd)

text \<open>
  C2. For a swarm \<open>g\<close> with a living enemy, with the descent distance the lowest living
  enemy's \<open>y\<close> minus \<open>baseY\<close>: the speed multiplier is one of 1, 1.5, 2.2 and 3; it is 1
  below 100, 1.5 from 100, 2.2 from 200 and 3 from 300, which is the multiplier of the
  highest threshold of \<open>speedStages\<close> that does not exceed the descent distance; it does
  not decrease when the descent distance grows; it agrees with the speed stage 1 to 4 of
  \<^verbatim>\<open>getCurrentSpeedStage\<close>. The interval between moves is
  \<open>1000 / (ENEMY_MOVE_SPEED * multiplier)\<close> and the interval between shots is
  \<open>ENEMY_SHOOT_INTERVAL / multiplier\<close>, and \<^verbatim>\<open>update\<close> stamps the time of the last move and
  of the last shot exactly when these intervals have passed (for the shot, with a drawn
  random number in \<open>[0, 1)\<close>).
\<close>

theorem speed_multiplier_stages:
  assumes "aliveEnemies g \<noteq> []"
  shows "speedMultiplier g \<in> {1, 3 / 2, 11 / 5, 3} \<and>
    speedMultiplier g =
     (if descentDistance g < 100 then 1 else if descentDistance g < 200 then 3 / 2
      else if descentDistance g < 300 then 11 / 5 else 3) \<and>
    (\<forall>(threshold, multiplier) \<in> set speedStages.
        threshold \<le> descentDistance g \<and>
        (\<forall>(threshold', multiplier') \<in> set speedStages.
            threshold' \<le> descentDistance g \<longrightarrow> threshold' \<le> threshold)
        \<longrightarrow> speedMultiplier g = multiplier) \<and>
    (aliveEnemies g' \<noteq> [] \<and> descentDistance g \<le> descentDistance g'
        \<longrightarrow> speedMultiplier g \<le> speedMultiplier g') \<and>
    speedMultiplier g = [1, 3 / 2, 11 / 5, 3] ! (getCurrentSpeedStage g - 1) \<and>
    moveInterval (getCurrentMoveSpeed g) = 1000 / (ENEMY_MOVE_SPEED * speedMultiplier g) \<and>
    shootInterval (getCurrentMoveSpeed g) = ENEMY_SHOOT_INTERVAL / speedMultiplier g \<and>
    lastMoveTime (snd (InvaderGrid_update dt now r g)) =
      (if now - lastMoveTime g \<ge> 1000 / (ENEMY_MOVE_SPEED * speedMultiplier g)
       then now else lastMoveTime g) \<and>
    (0 \<le> r \<and> r < 1 \<longrightarrow>
       gridLastShootTime (snd (InvaderGrid_update dt now r g)) =
         (if now - gridLastShootTime g \<ge> ENEMY_SHOOT_INTERVAL / speedMultiplier g
          then now else gridLastShootTime g))"
proof -
  note m = speedMultiplier_alive [OF assms]
  have range: "speedMultiplier g \<in> {1, 3 / 2, 11 / 5, 3}"
    by (simp add: m)
  have highest: "\<forall>(threshold, multiplier) \<in> set speedStages.
        threshold \<le> descentDistance g \<and>
        (\<forall>(threshold', multiplier') \<in> set speedStages.
            threshold' \<le> descentDistance g \<longrightarrow> threshold' \<le> threshold)
        \<longrightarrow> speedMultiplier g = multiplier"
    by (simp add: m speedStages_def)
  have mono: "speedMultiplier g \<le> speedMultiplier g'"
    if "aliveEnemies g' \<noteq> []" "descentDistance g \<le> descentDistance g'"
    using that by (simp add: m speedMultiplier_alive [OF that(1)])
  have stage: "speedMultiplier g = [1, 3 / 2, 11 / 5, 3] ! (getCurrentSpeedStage g - 1)"
    by (simp add: m getCurrentSpeedStage_alive [OF assms])
  have mi: "moveInterval (getCurrentMoveSpeed g)
              = 1000 / (ENEMY_MOVE_SPEED * speedMultiplier g)"
    by (simp add: moveInterval_def speedMultiplier_def ENEMY_MOVE_SPEED_def)
  have si: "shootInterval (getCurrentMoveSpeed g) = ENEMY_SHOOT_INTERVAL / speedMultiplier g"
    by (simp add: shootInterval_def speedMultiplier_def)
  have mt: "lastMoveTime (snd (InvaderGrid_update dt now r g)) =
      (if now - lastMoveTime g \<ge> 1000 / (ENEMY_MOVE_SPEED * speedMultiplier g)
       then now else lastMoveTime g)"
    using update_lastMoveTime [of dt now r g] by (simp only: mi)
  have st: "gridLastShootTime (snd (InvaderGrid_update dt now r g)) =
         (if now - gridLastShootTime g \<ge> ENEMY_SHOOT_INTERVAL / speedMultiplier g
          then now else gridLastShootTime g)" if "0 \<le> r" "r < 1"
    using update_shootTime [OF that, of dt now g] by (simp only: si)
  show ?thesis using range m highest mono stage mi si mt st by blast
qed

text \<open>
  C2, witness: the initial formation (descent distance 160, multiplier 1.5, the stage of
  the threshold 100) and the formation two drops lower (descent distance 200); an update
  at 5000 ms moves and shoots.
\<close>

theorem speed_multiplier_stages_witness:
  "aliveEnemies InvaderGrid_new \<noteq> [] \<and> aliveEnemies loweredGrid \<noteq> [] \<and>
   descentDistance InvaderGrid_new \<le> descentDistance loweredGrid \<and>
   (100, 3 / 2) \<in> set speedStages \<and> 100 \<le> descentDistance InvaderGrid_new \<and>
   \<not> 200 \<le> descentDistance InvaderGrid_new \<and>
   (0::real) \<le> 1 / 2 \<and> (1 / 2 :: real) < 1 \<and>
   speedMultiplier InvaderGrid_new = 3 / 2 \<and>
   speedMultiplier InvaderGrid_new \<le> speedMultiplier loweredGrid \<and>
   lastMoveTime (snd (InvaderGrid_update (1 / 60) 5000 (1 / 2) InvaderGrid_new)) = 5000 \<and>
   gridLastShootTime (snd (InvaderGrid_update (1 / 60) 5000 (1 / 2) InvaderGrid_new)) = 5000"
proof -
  have h1: "aliveEnemies InvaderGrid_new \<noteq> []" by code_simp
  have h2: "aliveEnemies loweredGrid \<noteq> []" by code_simp
  have d1: "descentDistance InvaderGrid_new = 160" by code_simp
  have d2: "descentDistance loweredGrid = 200" by code_simp
  have t: "lastMoveTime InvaderGrid_new = 0" "gridLastShootTime InvaderGrid_new = 0"
    by (simp_all add: InvaderGrid_new_def)
  note T = speed_multiplier_stages
             [OF h1, where g' = loweredGrid and dt = "1 / 60" and now = 5000 and r = "1 / 2"]
  note rest = T [THEN conjunct2, THEN conjunct2, THEN conjunct2]
  note rest' = rest [THEN conjunct2, THEN conjunct2, THEN conjunct2, THEN conjunct2]
  have m: "speedMultiplier InvaderGrid_new = 3 / 2"
    using T [THEN conjunct2, THEN conjunct1] by (simp add: d1)
  have mono: "speedMultiplier InvaderGrid_new \<le> speedMultiplier loweredGrid"
    using rest [THEN conjunct1] h2 by (simp add: d1 d2)
  have mt: "lastMoveTime (snd (InvaderGrid_update (1 / 60) 5000 (1 / 2) InvaderGrid_new)) = 5000"
    using rest' [THEN conjunct1] by (simp add: m t GAME_CONFIG)
  have st: "gridLastShootTime (snd (InvaderGrid_update (1 / 60) 5000 (1 / 2) InvaderGrid_new))
              = 5000"
    using rest' [THEN conjunct2] by (simp add: m t GAME_CONFIG)
  have th: "(100, 3 / 2) \<in> set speedStages \<and> 100 \<le> descentDistance InvaderGrid_new \<and>
   \<not> 200 \<le> descentDistance InvaderGrid_new"
    by (simp add: d1 speedStages_def)
  show ?thesis
    using h1 h2 th m mono mt st by (simp add: d1 d2)
qed

subsection \<open>The move step of the swarm\<close>

lemma Math_max_eq_Max: "vs \<noteq> [] \<Longrightarrow> Math_max vs = Max (set vs)"
  by (cases vs) (simp_all add: Max.set_eq_fold [symmetric])

lemma Math_min_eq_Min: "vs \<noteq> [] \<Longrightarrow> Math_min vs = Min (set vs)"
  by (cases vs) (simp_all add: Min.set_eq_fold [symmetric])

lemma move_empty: "aliveEnemies g = [] \<Longrightarrow> move g = g"
  by (simp add: move_def)

lemma move_drop:
  assumes "aliveEnemies g \<noteq> []" "atEdge g"
  shows "move g =
     g\<lparr>moveDirection := - moveDirection g,
       enemies := map (\<lambda>e. if isAlive e then e\<lparr>y := y e + ENEMY_DROP_DISTANCE\<rparr> else e)
                      (enemies g)\<rparr>"
  using assms
  by (auto simp add: move_def atEdge_def Let_def Math_max_eq_Max Math_min_eq_Min)

lemma move_lateral:
  assumes "aliveEnemies g \<noteq> []" "\<not> atEdge g"
  shows "move g =
     g\<lparr>moveDirection := moveDirection g,
       enemies := map (\<lambda>e. if isAlive e then e\<lparr>x := x e + moveDirection g * 10\<rparr> else e)
                      (enemies g)\<rparr>"
  using assms
  by (auto simp add: move_def atEdge_def Let_def Math_max_eq_Max Math_min_eq_Min)

text \<open>
  C3. A move step of a formation without a living enemy changes nothing. Otherwise the
  step does one of two things, never both. At the edge (moving right with the rightmost
  living edge at \<open>CANVAS_WIDTH - 10\<close> or beyond, or moving left with the leftmost living
  edge at 10 or below) the direction is reversed and every living enemy's \<open>y\<close> grows by
  \<open>ENEMY_DROP_DISTANCE\<close>, its \<open>x\<close> unchanged. Away from the edge the direction stays and
  every living enemy's \<open>x\<close> grows by \<open>direction * 10\<close>, its \<open>y\<close> unchanged. The direction
  changes only at the edge. Dead enemies, the timers, the base line and the remembered
  speed stage are left as they are.
\<close>

theorem move_step:
  "(aliveEnemies g = [] \<longrightarrow> move g = g) \<and>
   (aliveEnemies g \<noteq> [] \<longrightarrow>
      length (enemies (move g)) = length (enemies g) \<and>
      (moveDirection (move g) \<noteq> moveDirection g \<longrightarrow> atEdge g) \<and>
      (atEdge g \<longrightarrow>
         moveDirection (move g) = - moveDirection g \<and>
         (\<forall>i < length (enemies g).
            enemies (move g) ! i =
              (if isAlive (enemies g ! i)
               then (enemies g ! i)\<lparr>y := y (enemies g ! i) + ENEMY_DROP_DISTANCE\<rparr>
               else enemies g ! i))) \<and>
      (\<not> atEdge g \<longrightarrow>
         moveDirection (move g) = moveDirection g \<and>
         (\<forall>i < length (enemies g).
            enemies (move g) ! i =
              (if isAlive (enemies g ! i)
               then (enemies g ! i)\<lparr>x := x (enemies g ! i) + moveDirection g * 10\<rparr>
               else enemies g ! i)))) \<and>
   lastMoveTime (move g) = lastMoveTime g \<and>
   gridLastShootTime (move g) = gridLastShootTime g \<and>
   baseY (move g) = baseY g \<and>
   previousSpeedStage (move g) = previousSpeedStage g"
proof (cases "aliveEnemies g = []")
  case True
  then show ?thesis by (simp add: move_empty)
next
  case False
  show ?thesis
  proof (cases "atEdge g")
    case True
    show ?thesis using False True by (simp add: move_drop [OF False True])
  next
    case notEdge: False
    show ?thesis using False notEdge by (simp add: move_lateral [OF False notEdge])
  qed
qed

text \<open>
  C3, witness: the formation with every enemy destroyed does not move; the initial
  formation, away from the edge, steps sideways; the formation at the right edge turns and
  drops.
\<close>

theorem move_step_witness:
  "aliveEnemies clearedGrid = [] \<and> move clearedGrid = clearedGrid \<and>
   aliveEnemies InvaderGrid_new \<noteq> [] \<and> \<not> atEdge InvaderGrid_new \<and>
   0 < length (enemies InvaderGrid_new) \<and> isAlive (enemies InvaderGrid_new ! 0) \<and>
   moveDirection (move InvaderGrid_new) = moveDirection InvaderGrid_new \<and>
   enemies (move InvaderGrid_new) ! 0 =
     (enemies InvaderGrid_new ! 0)\<lparr>x := x (enemies InvaderGrid_new ! 0) + 1 * 10\<rparr> \<and>
   aliveEnemies rightEdgeGrid \<noteq> [] \<and> atEdge rightEdgeGrid \<and>
   0 < length (enemies rightEdgeGrid) \<and> isAlive (enemies rightEdgeGrid ! 0) \<and>
   moveDirection (move rightEdgeGrid) = - moveDirection rightEdgeGrid \<and>
   moveDirection (move rightEdgeGrid) \<noteq> moveDirection rightEdgeGrid \<and>
   enemies (move rightEdgeGrid) ! 0 =
     (enemies rightEdgeGrid ! 0)\<lparr>y := y (enemies rightEdgeGrid ! 0) + ENEMY_DROP_DISTANCE\<rparr>"
proof -
  have c: "aliveEnemies clearedGrid = []" by code_simp
  have n: "aliveEnemies InvaderGrid_new \<noteq> []" "\<not> atEdge InvaderGrid_new"
    "0 < length (enemies InvaderGrid_new)" "isAlive (enemies InvaderGrid_new ! 0)"
    by code_simp+
  have e: "aliveEnemies rightEdgeGrid \<noteq> []" "atEdge rightEdgeGrid"
    "0 < length (enemies rightEdgeGrid)" "isAlive (enemies rightEdgeGrid ! 0)"
    by code_simp+
  have d: "moveDirection InvaderGrid_new = 1" "moveDirection rightEdgeGrid = 1"
    by (simp_all add: InvaderGrid_new_def rightEdgeGrid_def)
  have 1: "move clearedGrid = clearedGrid"
    using move_step [of clearedGrid] c by simp
  have 2: "moveDirection (move InvaderGrid_new) = moveDirection InvaderGrid_new \<and>
     enemies (move InvaderGrid_new) ! 0 =
       (enemies InvaderGrid_new ! 0)\<lparr>x := x (enemies InvaderGrid_new ! 0) + 1 * 10\<rparr>"
    using move_step [of InvaderGrid_new] n by (simp add: d)
  have 3: "moveDirection (move rightEdgeGrid) = - moveDirection rightEdgeGrid \<and>
     enemies (move rightEdgeGrid) ! 0 =
       (enemies rightEdgeGrid ! 0)\<lparr>y := y (enemies rightEdgeGrid ! 0) + ENEMY_DROP_DISTANCE\<rparr>"
    using move_step [of rightEdgeGrid] e by simp
  show ?thesis using c n e 1 2 3 by (simp add: d)
qed

subsection \<open>The layout of the formation\<close>

lemma grid_layout:
  "length (concat (map (\<lambda>r. map (f r) [0..<C]) [0..<R])) = R * C \<and>
   (\<forall>r < R. \<forall>c < C. concat (map (\<lambda>r. map (f r) [0..<C]) [0..<R]) ! (r * C + c) = f r c)"
proof (induction R)
  case 0
  then show ?case by simp
next
  case (Suc R)
  let ?rows = "concat (map (\<lambda>r. map (f r) [0..<C]) [0..<R])"
  from Suc have len: "length ?rows = R * C"
    and nth: "\<And>r c. r < R \<Longrightarrow> c < C \<Longrightarrow> ?rows ! (r * C + c) = f r c"
    by simp_all
  have "concat (map (\<lambda>r. map (f r) [0..<C]) [0..<Suc R]) ! (r * C + c) = f r c"
    if "r < Suc R" "c < C" for r c
  proof (cases "r < R")
    case True
    have "r * C + c < Suc r * C" using that(2) by simp
    also have "\<dots> \<le> R * C" using True by (simp add: Suc_leI mult_le_mono1 del: mult_Suc)
    finally have "r * C + c < length ?rows" by (simp add: len)
    then show ?thesis using nth [OF True that(2)] by (simp add: nth_append)
  next
    case False
    with that(1) have "r = R" by simp
    then show ?thesis using that(2) by (simp add: nth_append len)
  qed
  then show ?case by (simp add: len)
qed

lemma createEnemies_layout:
  "length (createEnemies base) = ENEMY_ROWS * ENEMY_COLS \<and>
   (\<forall>r < ENEMY_ROWS. \<forall>c < ENEMY_COLS.
      createEnemies base ! (r * ENEMY_COLS + c) =
        \<lparr>x = ENEMY_START_X + real c * ENEMY_SPACING_X,
         y = base + real r * ENEMY_SPACING_Y,
         width = ENEMY_WIDTH, height = ENEMY_HEIGHT, isAlive = True, row = r, col = c\<rparr>)"
  unfolding createEnemies_def Enemy_new_def by (rule grid_layout)

subsection \<open>Collisions of the player's bullets\<close>

lemma scan_None:
  "fst (checkBulletCollision_scan b es) = None \<Longrightarrow>
   snd (checkBulletCollision_scan b es) = es \<and> (\<forall>i < length es. \<not> hits b (es ! i))"
proof (induction es)
  case Nil
  then show ?case by simp
next
  case (Cons e es)
  from Cons.prems have nohit: "\<not> hits b e"
    by (auto simp add: hits_def split: if_splits)
  with Cons.prems have "fst (checkBulletCollision_scan b es) = None"
    by (auto simp add: hits_def split: prod.splits)
  from Cons.IH [OF this] nohit show ?case
    by (auto simp add: hits_def nth_Cons' split: prod.splits)
qed

lemma scan_Some:
  "fst (checkBulletCollision_scan b es) = Some i \<Longrightarrow>
   i < length es \<and> hits b (es ! i) \<and> (\<forall>j < i. \<not> hits b (es ! j)) \<and>
   snd (checkBulletCollision_scan b es) = es[i := Enemy_destroy (es ! i)]"
proof (induction es arbitrary: i)
  case Nil
  then show ?case by simp
next
  case (Cons e es)
  show ?case
  proof (cases "hits b e")
    case True
    with Cons.prems show ?thesis by (auto simp add: hits_def)
  next
    case False
    with Cons.prems obtain k where k: "fst (checkBulletCollision_scan b es) = Some k" "i = Suc k"
      by (auto simp add: hits_def split: prod.splits)
    from Cons.IH [OF k(1)] False k(2) show ?thesis
      by (auto simp add: hits_def nth_Cons' split: prod.splits)
  qed
qed

lemma destroyed_not_hit: "\<not> hits b (Enemy_destroy e)"
  by (simp add: hits_def Enemy_destroy_def)

lemma checkBulletCollision_first:
  "(case checkBulletCollision b g of
      (None, g') \<Rightarrow> g' = g \<and> (\<forall>i < length (enemies g). \<not> hits b (enemies g ! i))
    | (Some i, g') \<Rightarrow>
        i < length (enemies g) \<and> isAlive (enemies g ! i) \<and>
        checkCollision (getRect b) (getRect (enemies g ! i)) \<and>
        (\<forall>j < i. \<not> hits b (enemies g ! j)) \<and>
        g' = g\<lparr>enemies := (enemies g)[i := (enemies g ! i)\<lparr>isAlive := False\<rparr>]\<rparr> \<and>
        (\<forall>b'. fst (checkBulletCollision b' g') \<noteq> Some i))"
proof (cases "fst (checkBulletCollision_scan b (enemies g))")
  case None
  from scan_None [OF this] None show ?thesis
    by (auto simp add: checkBulletCollision_def split: prod.splits)
next
  case (Some i)
  note s = scan_Some [OF Some]
  have again: "fst (checkBulletCollision b' (g\<lparr>enemies := (enemies g)[i := Enemy_destroy (enemies g ! i)]\<rparr>)) \<noteq> Some i" for b'
  proof
    assume "fst (checkBulletCollision b' (g\<lparr>enemies := (enemies g)[i := Enemy_destroy (enemies g ! i)]\<rparr>)) = Some i"
    then have "fst (checkBulletCollision_scan b' ((enemies g)[i := Enemy_destroy (enemies g ! i)])) = Some i"
      by (simp add: checkBulletCollision_def split: prod.splits)
    from scan_Some [OF this] s show False
      by (simp add: destroyed_not_hit)
  qed
  from s Some again show ?thesis
    by (auto simp add: checkBulletCollision_def hits_def Enemy_destroy_def split: prod.splits)
qed

lemma resolved_refl: "resolved s s"
  by (simp add: resolved_def kills_def ufoKill_def)

lemma resolvedD:
  assumes "resolved s s'"
  shows "score s' = score s + SCORE_PER_ENEMY * kills s s' + UFO_SCORE * ufoKill s s'"
    and "int (length (playerBullets s')) + kills s s' + ufoKill s s' = int (length (playerBullets s))"
    and "0 \<le> kills s s'"
    and "ufoActive s' \<Longrightarrow> ufoActive s"
    and "player s' = player s" and "enemyBullets s' = enemyBullets s"
    and "gameState s' = gameState s" and "wave s' = wave s"
    and "isPlayerRespawning s' = isPlayerRespawning s"
    and "playerRespawnTime s' = playerRespawnTime s"
  using assms unfolding resolved_def by blast+

lemma resolved_trans:
  assumes "resolved s s1" "resolved s1 s2"
  shows "resolved s s2"
proof -
  note a = resolvedD [OF assms(1)] and b = resolvedD [OF assms(2)]
  have k: "kills s s2 = kills s s1 + kills s1 s2"
    by (simp add: kills_def)
  have u: "ufoKill s s2 = ufoKill s s1 + ufoKill s1 s2"
    using a(4) b(4) unfolding ufoKill_def by (cases "ufoActive s"; cases "ufoActive s1"; cases "ufoActive s2") simp_all
  have act: "ufoActive s2 \<longrightarrow> ufoActive s"
    using a(4) b(4) by blast
  have sc: "score s2 = score s + SCORE_PER_ENEMY * kills s s2 + UFO_SCORE * ufoKill s s2"
    unfolding k u b(1) a(1) by (simp add: distrib_left)
  have len: "int (length (playerBullets s2)) + kills s s2 + ufoKill s s2
               = int (length (playerBullets s))"
    using a(2) b(2) unfolding k u by linarith
  have nn: "0 \<le> kills s s2"
    using a(3) b(3) unfolding k by linarith
  have rest: "player s2 = player s \<and> enemyBullets s2 = enemyBullets s \<and>
     gameState s2 = gameState s \<and> wave s2 = wave s \<and>
     isPlayerRespawning s2 = isPlayerRespawning s \<and>
     playerRespawnTime s2 = playerRespawnTime s"
    using a(5-10) b(5-10) by simp
  show ?thesis
    unfolding resolved_def using sc len nn act rest by blast
qed

lemma alive_after_destroy:
  "i < length es \<Longrightarrow> isAlive (es ! i) \<Longrightarrow>
   Suc (length (filter isAlive (es[i := Enemy_destroy (es ! i)]))) = length (filter isAlive es)"
proof (induction es arbitrary: i)
  case Nil
  then show ?case by simp
next
  case (Cons e es)
  then show ?case by (cases i) (auto simp add: Enemy_destroy_def)
qed

lemma length_splice1: "i < length items \<Longrightarrow> Suc (length (splice1 i items)) = length items"
  by (simp add: splice1_def)

lemma step_enemy_hit:
  assumes "i < length (playerBullets s)"
    and "fst (checkBulletCollision (playerBullets s ! i) (invaderGrid s)) = Some k"
  shows "playerBulletStep i s =
     (None, s\<lparr>invaderGrid := snd (checkBulletCollision (playerBullets s ! i) (invaderGrid s)),
               playerBullets := splice1 i (playerBullets s),
               score := score s + SCORE_PER_ENEMY,
               sounds := sounds s @ [EnemyHit]\<rparr>)"
proof -
  obtain g' where c: "checkBulletCollision (playerBullets s ! i) (invaderGrid s) = (Some k, g')"
    using assms(2) by (cases "checkBulletCollision (playerBullets s ! i) (invaderGrid s)") simp
  show ?thesis
    using assms(1) by (simp add: playerBulletStep_def c play_def Let_def split: option.split)
qed

lemma step_enemy_miss_grid:
  "fst (checkBulletCollision b g) = None \<Longrightarrow> checkBulletCollision b g = (None, g)"
  using scan_None [of b "enemies g"]
  by (cases "checkBulletCollision_scan b (enemies g)") (simp add: checkBulletCollision_def)

lemma step_ufo_hit:
  assumes "i < length (playerBullets s)"
    and "fst (checkBulletCollision (playerBullets s ! i) (invaderGrid s)) = None"
    and "ufo s = Some u" "isActive u"
    and "checkCollision (getRect (playerBullets s ! i)) (getRect u)"
  shows "playerBulletStep i s =
     (None, s\<lparr>playerBullets := splice1 i (playerBullets s),
               ufo := Some (u\<lparr>isActive := False\<rparr>),
               score := score s + UFO_SCORE,
               sounds := sounds s @ [UfoHit]\<rparr>)"
  using assms(1,3,4,5)
  by (simp add: playerBulletStep_def step_enemy_miss_grid [OF assms(2)] play_def UFO_destroy_def)

lemma step_miss:
  assumes "i < length (playerBullets s)"
    and "fst (checkBulletCollision (playerBullets s ! i) (invaderGrid s)) = None"
    and "\<not> (\<exists>u. ufo s = Some u \<and> isActive u \<and>
              checkCollision (getRect (playerBullets s ! i)) (getRect u))"
  shows "playerBulletStep i s = (None, s)"
  using assms(1,3)
  by (auto simp add: playerBulletStep_def step_enemy_miss_grid [OF assms(2)] split: option.split)

lemma checkBulletCollision_alt:
  "checkBulletCollision b g =
     (fst (checkBulletCollision_scan b (enemies g)),
      g\<lparr>enemies := snd (checkBulletCollision_scan b (enemies g))\<rparr>)"
  by (simp add: checkBulletCollision_def case_prod_beta)

lemma kill_count:
  assumes "fst (checkBulletCollision b g) = Some k"
  shows "Suc (getAliveCount (snd (checkBulletCollision b g))) = getAliveCount g"
proof -
  from assms have s: "fst (checkBulletCollision_scan b (enemies g)) = Some k"
    by (simp add: checkBulletCollision_alt)
  from scan_Some [OF s] alive_after_destroy [of k "enemies g"] show ?thesis
    by (simp add: checkBulletCollision_alt getAliveCount_def hits_def)
qed

lemma step_resolved:
  assumes "i < length (playerBullets s)"
  shows "\<exists>s1. playerBulletStep i s = (None, s1) \<and> resolved s s1 \<and>
              length (playerBullets s) \<le> Suc (length (playerBullets s1))"
proof (cases "fst (checkBulletCollision (playerBullets s ! i) (invaderGrid s))")
  case (Some k)
  show ?thesis
    using length_splice1 [OF assms] kill_count [OF Some]
    by (simp add: step_enemy_hit [OF assms Some] resolved_def kills_def ufoKill_def ufoActive_def)
next
  case None
  show ?thesis
  proof (cases "\<exists>u. ufo s = Some u \<and> isActive u \<and>
              checkCollision (getRect (playerBullets s ! i)) (getRect u)")
    case True
    then obtain u where u: "ufo s = Some u" "isActive u"
      "checkCollision (getRect (playerBullets s ! i)) (getRect u)" by blast
    show ?thesis
      using length_splice1 [OF assms] u
      by (simp add: step_ufo_hit [OF assms None u] resolved_def kills_def ufoKill_def ufoActive_def)
  next
    case False
    show ?thesis by (simp add: step_miss [OF assms None False] resolved_refl)
  qed
qed

lemma loop_resolved:
  "n \<le> length (playerBullets s) \<Longrightarrow>
   \<exists>s'. playerBulletLoop n s = (None, s') \<and> resolved s s'"
proof (induction n arbitrary: s)
  case 0
  then show ?case by (simp add: resolved_refl)
next
  case (Suc n)
  then have "n < length (playerBullets s)" by simp
  from step_resolved [OF this] obtain s1 where
    s1: "playerBulletStep n s = (None, s1)" "resolved s s1"
        "length (playerBullets s) \<le> Suc (length (playerBullets s1))" by blast
  have "n \<le> length (playerBullets s1)"
    using s1(3) Suc.prems by linarith
  from Suc.IH [OF this] obtain s' where
    s': "playerBulletLoop n s1 = (None, s')" "resolved s1 s'" by blast
  from resolved_trans [OF s1(2) s'(2)] s1(1) s'(1) show ?case
    by (simp add: andThen_def)
qed

lemma playerBulletStep_cases:
  assumes "n < length (playerBullets s)"
  shows "fst (playerBulletStep n s) = None \<and>
      (fst (checkBulletCollision (playerBullets s ! n) (invaderGrid s)) \<noteq> None \<longrightarrow>
         playerBullets (snd (playerBulletStep n s)) = splice1 n (playerBullets s) \<and>
         score (snd (playerBulletStep n s)) = score s + 10 \<and>
         ufo (snd (playerBulletStep n s)) = ufo s \<and>
         invaderGrid (snd (playerBulletStep n s))
           = snd (checkBulletCollision (playerBullets s ! n) (invaderGrid s))) \<and>
      (fst (checkBulletCollision (playerBullets s ! n) (invaderGrid s)) = None \<longrightarrow>
         invaderGrid (snd (playerBulletStep n s)) = invaderGrid s \<and>
         (\<forall>u. ufo s = Some u \<and> isActive u \<and>
               checkCollision (getRect (playerBullets s ! n)) (getRect u) \<longrightarrow>
              playerBullets (snd (playerBulletStep n s)) = splice1 n (playerBullets s) \<and>
              ufo (snd (playerBulletStep n s)) = Some (u\<lparr>isActive := False\<rparr>) \<and>
              score (snd (playerBulletStep n s)) = score s + 100) \<and>
         (\<not> (\<exists>u. ufo s = Some u \<and> isActive u \<and>
                  checkCollision (getRect (playerBullets s ! n)) (getRect u)) \<longrightarrow>
              snd (playerBulletStep n s) = s))"
proof (cases "fst (checkBulletCollision (playerBullets s ! n) (invaderGrid s))")
  case (Some k)
  show ?thesis
    by (simp add: Some step_enemy_hit [OF assms Some] SCORE_PER_ENEMY_def)
next
  case None
  show ?thesis
  proof (cases "\<exists>u. ufo s = Some u \<and> isActive u \<and>
              checkCollision (getRect (playerBullets s ! n)) (getRect u)")
    case True
    then obtain u where u: "ufo s = Some u" "isActive u"
      "checkCollision (getRect (playerBullets s ! n)) (getRect u)" by blast
    show ?thesis
      using u by (simp add: None step_ufo_hit [OF assms None u] UFO_SCORE_def)
  next
    case False
    show ?thesis
      using False by (simp add: None step_miss [OF assms None False])
  qed
qed

text \<open>
  C4. \<^verbatim>\<open>checkBulletCollision\<close> returns \<^verbatim>\<open>null\<close> and changes nothing if the bullet hits no
  living enemy. Otherwise it returns the enemy of the lowest index among the living
  enemies whose box overlaps the bullet's, an enemy that was alive, and sets its
  \<open>isAlive\<close> to false, all else unchanged; that enemy is not returned by any later call.
  The indices are row-major: a created formation has the enemy of row \<open>r\<close> and column \<open>c\<close>
  at index \<open>r * ENEMY_COLS + c\<close>.
  In the session, for the bullet at index \<open>n\<close>: if an enemy was returned, the bullet is
  removed, the score grows by 10, and the UFO is left as it is, whether or not the
  bullet overlaps it; if none was returned and the bullet overlaps an active UFO, the
  bullet is removed, the UFO deactivated and the score grows by 100; otherwise nothing
  changes. The whole loop completes, and over it the score grows by 10 for each enemy
  killed and by 100 for a UFO deactivated, each of which costs one bullet.
\<close>

theorem player_bullet_resolution:
  "(case checkBulletCollision b g of
      (None, g') \<Rightarrow> g' = g \<and> (\<forall>i < length (enemies g). \<not> hits b (enemies g ! i))
    | (Some i, g') \<Rightarrow>
        i < length (enemies g) \<and> isAlive (enemies g ! i) \<and>
        checkCollision (getRect b) (getRect (enemies g ! i)) \<and>
        (\<forall>j < i. \<not> hits b (enemies g ! j)) \<and>
        g' = g\<lparr>enemies := (enemies g)[i := (enemies g ! i)\<lparr>isAlive := False\<rparr>]\<rparr> \<and>
        (\<forall>b'. fst (checkBulletCollision b' g') \<noteq> Some i)) \<and>
   (\<forall>r < ENEMY_ROWS. \<forall>c < ENEMY_COLS.
      row (createEnemies base ! (r * ENEMY_COLS + c)) = r \<and>
      col (createEnemies base ! (r * ENEMY_COLS + c)) = c) \<and>
   (n < length (playerBullets s) \<longrightarrow>
      fst (playerBulletStep n s) = None \<and>
      (fst (checkBulletCollision (playerBullets s ! n) (invaderGrid s)) \<noteq> None \<longrightarrow>
         playerBullets (snd (playerBulletStep n s)) = splice1 n (playerBullets s) \<and>
         score (snd (playerBulletStep n s)) = score s + 10 \<and>
         ufo (snd (playerBulletStep n s)) = ufo s \<and>
         invaderGrid (snd (playerBulletStep n s))
           = snd (checkBulletCollision (playerBullets s ! n) (invaderGrid s))) \<and>
      (fst (checkBulletCollision (playerBullets s ! n) (invaderGrid s)) = None \<longrightarrow>
         invaderGrid (snd (playerBulletStep n s)) = invaderGrid s \<and>
         (\<forall>u. ufo s = Some u \<and> isActive u \<and>
               checkCollision (getRect (playerBullets s ! n)) (getRect u) \<longrightarrow>
              playerBullets (snd (playerBulletStep n s)) = splice1 n (playerBullets s) \<and>
              ufo (snd (playerBulletStep n s)) = Some (u\<lparr>isActive := False\<rparr>) \<and>
              score (snd (playerBulletStep n s)) = score s + 100) \<and>
         (\<not> (\<exists>u. ufo s = Some u \<and> isActive u \<and>
                  checkCollision (getRect (playerBullets s ! n)) (getRect u)) \<longrightarrow>
              snd (playerBulletStep n s) = s))) \<and>
   (\<exists>s'. playerBulletLoop (length (playerBullets s)) s = (None, s') \<and> resolved s s')"
proof -
  have layout: "\<forall>r < ENEMY_ROWS. \<forall>c < ENEMY_COLS.
      row (createEnemies base ! (r * ENEMY_COLS + c)) = r \<and>
      col (createEnemies base ! (r * ENEMY_COLS + c)) = c"
    using createEnemies_layout [of base] by simp
  show ?thesis
    using checkBulletCollision_first [where b = b and g = g] layout
      playerBulletStep_cases [where n = n and s = s]
      loop_resolved [where n = "length (playerBullets s)" and s = s]
    by blast
qed

text \<open>
  C4, witness. In \<open>enemyShot\<close> the bullet hits the enemy of index 36 (row 4, column 0),
  which was alive, and
  not the enemy above it (index 27): the bullet is removed and the score is 10. In \<open>ufoShot\<close> the bullet hits no enemy but the
  active UFO: the bullet is removed, the UFO is inactive and the score is 100.
\<close>

theorem player_bullet_resolution_witness:
  "(4::nat) < ENEMY_ROWS \<and> (0::nat) < ENEMY_COLS \<and>
   row (enemies (invaderGrid enemyShot) ! 36) = 4 \<and>
   col (enemies (invaderGrid enemyShot) ! 36) = 0 \<and>
   fst (checkBulletCollision (playerBullets enemyShot ! 0) (invaderGrid enemyShot)) = Some 36 \<and>
   isAlive (enemies (invaderGrid enemyShot) ! 36) \<and>
   \<not> hits (playerBullets enemyShot ! 0) (enemies (invaderGrid enemyShot) ! 27) \<and>
   0 < length (playerBullets enemyShot) \<and>
   playerBullets (snd (playerBulletStep 0 enemyShot)) = [] \<and>
   score (snd (playerBulletStep 0 enemyShot)) = score enemyShot + 10 \<and>
   0 < length (playerBullets ufoShot) \<and>
   fst (checkBulletCollision (playerBullets ufoShot ! 0) (invaderGrid ufoShot)) = None \<and>
   (\<exists>u. ufo ufoShot = Some u \<and> isActive u \<and>
        checkCollision (getRect (playerBullets ufoShot ! 0)) (getRect u) \<and>
        ufo (snd (playerBulletStep 0 ufoShot)) = Some (u\<lparr>isActive := False\<rparr>)) \<and>
   playerBullets (snd (playerBulletStep 0 ufoShot)) = [] \<and>
   score (snd (playerBulletStep 0 ufoShot)) = score ufoShot + 100 \<and>
   (\<exists>s'. playerBulletLoop (length (playerBullets enemyShot)) enemyShot = (None, s') \<and>
         score s' = 10)"
proof -
  note E = player_bullet_resolution
             [where b = "playerBullets enemyShot ! 0" and g = "invaderGrid enemyShot"
                and n = 0 and s = enemyShot and base = ENEMY_START_Y]
  have r0: "(4::nat) < ENEMY_ROWS" "(0::nat) < ENEMY_COLS"
    by (simp_all add: GAME_CONFIG)
  have r1: "enemies (invaderGrid enemyShot) = createEnemies ENEMY_START_Y"
    by (simp add: enemyShot_def Session_new_def InvaderGrid_new_def)
  have "row (createEnemies ENEMY_START_Y ! (4 * ENEMY_COLS + 0)) = 4 \<and>
        col (createEnemies ENEMY_START_Y ! (4 * ENEMY_COLS + 0)) = 0"
    using E [THEN conjunct2, THEN conjunct1] r0 by blast
  then have r2: "row (enemies (invaderGrid enemyShot) ! 36) = 4 \<and>
                 col (enemies (invaderGrid enemyShot) ! 36) = 0"
    by (simp add: r1 ENEMY_COLS_def)
  note U = player_bullet_resolution
             [where b = "playerBullets ufoShot ! 0" and g = "invaderGrid ufoShot"
                and n = 0 and s = ufoShot]
  have e1: "fst (checkBulletCollision (playerBullets enemyShot ! 0) (invaderGrid enemyShot))
              = Some 36"
    by code_simp
  have e2: "0 < length (playerBullets enemyShot)"
    "splice1 0 (playerBullets enemyShot) = []"
    by (simp_all add: enemyShot_def splice1_def)
  have e3: "isAlive (enemies (invaderGrid enemyShot) ! 36) \<and>
    (\<forall>j < 36. \<not> hits (playerBullets enemyShot ! 0) (enemies (invaderGrid enemyShot) ! j))"
    using E [THEN conjunct1] e1
    by (cases "checkBulletCollision (playerBullets enemyShot ! 0) (invaderGrid enemyShot)") simp
  have e4: "playerBullets (snd (playerBulletStep 0 enemyShot)) = [] \<and>
            score (snd (playerBulletStep 0 enemyShot)) = score enemyShot + 10"
    using E [THEN conjunct2, THEN conjunct2, THEN conjunct1] e1 e2 by simp
  have u1: "fst (checkBulletCollision (playerBullets ufoShot ! 0) (invaderGrid ufoShot)) = None"
    by code_simp
  have u2: "0 < length (playerBullets ufoShot)"
    "splice1 0 (playerBullets ufoShot) = []"
    by (simp_all add: ufoShot_def splice1_def)
  have u3: "ufo ufoShot = Some ((UFO_new 0)\<lparr>x := 100\<rparr>)"
    "isActive ((UFO_new 0)\<lparr>x := 100\<rparr>)"
    by (simp_all add: ufoShot_def UFO_new_def)
  have u4: "checkCollision (getRect (playerBullets ufoShot ! 0)) (getRect ((UFO_new 0)\<lparr>x := 100\<rparr>))"
    by (simp add: ufoShot_def UFO_new_def Bullet_new_def checkCollision_def getRect_def
          GAME_CONFIG)
  have u5: "playerBullets (snd (playerBulletStep 0 ufoShot)) = [] \<and>
            ufo (snd (playerBulletStep 0 ufoShot)) = Some ((UFO_new 0)\<lparr>x := 100, isActive := False\<rparr>) \<and>
            score (snd (playerBulletStep 0 ufoShot)) = score ufoShot + 100"
    using U [THEN conjunct2, THEN conjunct2, THEN conjunct1] u1 u2 u3 u4 by simp
  obtain s' where s': "playerBulletLoop (length (playerBullets enemyShot)) enemyShot = (None, s')"
    using E [THEN conjunct2, THEN conjunct2, THEN conjunct2] by blast
  have l: "score (snd (playerBulletLoop (length (playerBullets enemyShot)) enemyShot)) = 10"
    by code_simp
  have e5: "\<exists>s'. playerBulletLoop (length (playerBullets enemyShot)) enemyShot = (None, s') \<and>
         score s' = 10"
    using s' l by simp
  from e3 have e6: "\<not> hits (playerBullets enemyShot ! 0) (enemies (invaderGrid enemyShot) ! 27)"
    by simp
  show ?thesis
    using r0 r2 e1 e2(1) e3 e4 e6 u1 u2(1) u3 u4 u5 e5 by simp
qed

subsection \<open>The hit on the last life\<close>

lemma enemyBulletLoop_miss:
  "n \<le> length (enemyBullets s) \<Longrightarrow>
   \<forall>j < n. \<not> checkCollision (getRect (enemyBullets s ! j)) (getRect (player s)) \<Longrightarrow>
   enemyBulletLoop f n s = (None, s)"
  by (induction n) simp_all

lemma enemyBulletLoop_hit:
  "n \<le> length (enemyBullets s) \<Longrightarrow>
   \<exists>j < n. checkCollision (getRect (enemyBullets s ! j)) (getRect (player s)) \<Longrightarrow>
   \<exists>k < n. enemyBulletLoop f n s =
     (None, startPlayerRespawn f
              (play PlayerHit (s\<lparr>enemyBullets := splice1 k (enemyBullets s),
                                  player := hit (player s)\<rparr>)))"
proof (induction n)
  case 0
  then show ?case by simp
next
  case (Suc n)
  show ?case
  proof (cases "checkCollision (getRect (enemyBullets s ! n)) (getRect (player s))")
    case True
    with Suc.prems show ?thesis by auto
  next
    case False
    with Suc.prems have "\<exists>j < n. checkCollision (getRect (enemyBullets s ! j)) (getRect (player s))"
      by (auto simp add: less_Suc_eq)
    with Suc.IH Suc.prems obtain k where "k < n"
      "enemyBulletLoop f n s =
         (None, startPlayerRespawn f
              (play PlayerHit (s\<lparr>enemyBullets := splice1 k (enemyBullets s),
                                  player := hit (player s)\<rparr>)))"
      by auto
    then have "k < Suc n \<and> enemyBulletLoop f (Suc n) s =
         (None, startPlayerRespawn f
              (play PlayerHit (s\<lparr>enemyBullets := splice1 k (enemyBullets s),
                                  player := hit (player s)\<rparr>)))"
      using False Suc.prems by simp
    then show ?thesis by blast
  qed
qed

lemma last_life_frame:
  assumes "gameState s = PLAYING" "\<not> isPlayerRespawning s" "lives (player s) = 1"
    and "\<exists>b \<in> set (enemyBullets s). checkCollision (getRect b) (getRect (player s))"
  shows "\<exists>s1. checkCollisions f s = (None, s1) \<and>
           lives (player s1) = 0 \<and> isPlayerRespawning s1 \<and> gameState s1 = PLAYING \<and>
           playerRespawnTime s1 = performanceNow f \<and>
           Suc (length (enemyBullets s1)) = length (enemyBullets s) \<and>
           endOfFrame f s = (None, gameOver s1)"
proof -
  obtain s0 where s0: "playerBulletLoop (length (playerBullets s)) s = (None, s0)"
    "resolved s s0"
    using loop_resolved [of "length (playerBullets s)" s] by auto
  note r = resolvedD [OF s0(2)]
  from assms(4) obtain j where j: "j < length (enemyBullets s0)"
    "checkCollision (getRect (enemyBullets s0 ! j)) (getRect (player s0))"
    by (auto simp add: in_set_conv_nth r(5) r(6))
  then have "\<exists>j < length (enemyBullets s0).
     checkCollision (getRect (enemyBullets s0 ! j)) (getRect (player s0))" by blast
  from enemyBulletLoop_hit [OF le_refl this, of f] obtain k where k: "k < length (enemyBullets s0)"
    "enemyBulletLoop f (length (enemyBullets s0)) s0 =
       (None, startPlayerRespawn f
              (play PlayerHit (s0\<lparr>enemyBullets := splice1 k (enemyBullets s0),
                                  player := hit (player s0)\<rparr>)))" by blast
  define s1 where "s1 = startPlayerRespawn f
              (play PlayerHit (s0\<lparr>enemyBullets := splice1 k (enemyBullets s0),
                                  player := hit (player s0)\<rparr>))"
  have cc: "checkCollisions f s = (None, s1)"
    using assms(2) s0(1) k(2) by (simp add: checkCollisions_def andThen_def s1_def)
  have f1: "lives (player s1) = 0" "isPlayerRespawning s1" "gameState s1 = PLAYING"
    "playerRespawnTime s1 = performanceNow f"
    using assms(1,3) by (simp_all add: s1_def startPlayerRespawn_def play_def hit_def r(5) r(7))
  have f2: "Suc (length (enemyBullets s1)) = length (enemyBullets s)"
    using length_splice1 [OF k(1)] by (simp add: s1_def startPlayerRespawn_def play_def r(6))
  have "endOfFrame f s = (None, gameOver s1)"
    using f1 by (simp add: endOfFrame_def cc andThen_def checkInvaderPlayerCollision_def
        checkGameEndConditions_def)
  with cc f1 f2 show ?thesis by blast
qed

lemma game_over_frames:
  "gameState s = GAME_OVER \<Longrightarrow> update f dt now s = (None, updateGameOver f s)"
  by (simp add: update_def)

text \<open>
  C5, as amended. In a playing session that is not respawning, with one life left and an
  enemy bullet overlapping the player, \<^verbatim>\<open>checkCollisions\<close> completes with the life count at
  0, one enemy bullet removed and the phase still \<open>PLAYING\<close>, and the end-condition check
  of the same frame makes the phase \<open>GAME_OVER\<close>. The hit does call
  \<^verbatim>\<open>startPlayerRespawn\<close>: \<open>isPlayerRespawning\<close> is true from then on. But the respawn wait
  and reset of \<^verbatim>\<open>updatePlaying\<close> never run: every later update is \<^verbatim>\<open>updateGameOver\<close>, which
  changes nothing until Enter is pressed.
\<close>

theorem last_life_hit:
  assumes "gameState s = PLAYING" "\<not> isPlayerRespawning s" "lives (player s) = 1"
    and "\<exists>b \<in> set (enemyBullets s). checkCollision (getRect b) (getRect (player s))"
  shows "\<exists>s1. checkCollisions f s = (None, s1) \<and>
           lives (player s1) = 0 \<and> isPlayerRespawning s1 \<and> gameState s1 = PLAYING \<and>
           playerRespawnTime s1 = performanceNow f \<and>
           Suc (length (enemyBullets s1)) = length (enemyBullets s) \<and>
           endOfFrame f s = (None, gameOver s1) \<and>
           gameState (snd (endOfFrame f s)) = GAME_OVER \<and>
           lives (player (snd (endOfFrame f s))) = 0 \<and>
           isPlayerRespawning (snd (endOfFrame f s)) \<and>
           (\<forall>f' dt now. update f' dt now (snd (endOfFrame f s)) =
                (None, updateGameOver f' (snd (endOfFrame f s)))) \<and>
           (\<forall>f' dt now. \<not> isEnterPressed f' \<longrightarrow>
                update f' dt now (snd (endOfFrame f s)) = (None, snd (endOfFrame f s)))"
proof -
  from last_life_frame [OF assms, of f] obtain s1 where s1:
    "checkCollisions f s = (None, s1)" "lives (player s1) = 0" "isPlayerRespawning s1"
    "gameState s1 = PLAYING" "playerRespawnTime s1 = performanceNow f"
    "Suc (length (enemyBullets s1)) = length (enemyBullets s)"
    "endOfFrame f s = (None, gameOver s1)"
    by blast
  have g: "gameState (gameOver s1) = GAME_OVER" "lives (player (gameOver s1)) = 0"
    "isPlayerRespawning (gameOver s1)"
    using s1(2,3) by (simp_all add: gameOver_def play_def)
  have u: "update f' dt now (gameOver s1) = (None, updateGameOver f' (gameOver s1))"
    for f' dt now
    by (rule game_over_frames) (rule g(1))
  have v: "update f' dt now (gameOver s1) = (None, gameOver s1)"
    if "\<not> isEnterPressed f'" for f' dt now
    using that by (simp add: u updateGameOver_def)
  show ?thesis
    using s1 g u v by (intro exI [of _ s1]) simp
qed

text \<open>
  C5, witness of the amended statement: the session \<open>lastLife\<close> in a frame without keys.
\<close>

theorem last_life_hit_witness:
  "gameState lastLife = PLAYING \<and> \<not> isPlayerRespawning lastLife \<and>
   lives (player lastLife) = 1 \<and>
   (\<exists>b \<in> set (enemyBullets lastLife). checkCollision (getRect b) (getRect (player lastLife))) \<and>
   \<not> isEnterPressed idleFrame \<and>
   gameState (snd (endOfFrame idleFrame lastLife)) = GAME_OVER \<and>
   lives (player (snd (endOfFrame idleFrame lastLife))) = 0 \<and>
   update idleFrame (1 / 60) 6000 (snd (endOfFrame idleFrame lastLife))
     = (None, snd (endOfFrame idleFrame lastLife))"
proof -
  have h: "gameState lastLife = PLAYING" "\<not> isPlayerRespawning lastLife"
    "lives (player lastLife) = 1"
    by (simp_all add: lastLife_def Session_new_def)
  have o: "\<exists>b \<in> set (enemyBullets lastLife).
             checkCollision (getRect b) (getRect (player lastLife))"
    by (simp add: lastLife_def Session_new_def Player_new_def Bullet_new_def
          checkCollision_def getRect_def GAME_CONFIG)
  have e: "\<not> isEnterPressed idleFrame"
    by (simp add: idleFrame_def)
  from last_life_hit [OF h o, of idleFrame] e h o show ?thesis
    by auto
qed

text \<open>
  C5, counterexample to the claim as stated: in \<open>lastLife\<close> the hit on the last life leaves
  the session with the respawn flag set.
\<close>

theorem last_life_respawn_counterexample:
  "gameState lastLife = PLAYING \<and> \<not> isPlayerRespawning lastLife \<and>
   lives (player lastLife) = 1 \<and>
   (\<exists>b \<in> set (enemyBullets lastLife). checkCollision (getRect b) (getRect (player lastLife))) \<and>
   fst (endOfFrame idleFrame lastLife) = None \<and>
   isPlayerRespawning (snd (endOfFrame idleFrame lastLife))"
  by code_simp

subsection \<open>The next wave\<close>

text \<open>
  C10, as amended. At the end-condition check the wave advances exactly if no enemy is
  alive and the player has a life left; the session is then the one \<^verbatim>\<open>nextWave\<close> gives,
  and otherwise the wave counter, the swarm and the bullets are left as they are.
  \<^verbatim>\<open>nextWave\<close> adds one to the wave counter; resets the swarm (direction 1, both timers 0,
  remembered speed stage 1, the base line kept); recreates the formation of
  \<open>ENEMY_ROWS * ENEMY_COLS\<close> living enemies in row-major order at the canonical
  positions (the formation of a new grid); empties both bullet collections; and leaves
  the player (so its lives and position), the score, the phase, the UFO and the respawn
  flag as they are.
\<close>

theorem wave_advance:
  "(wave (checkGameEndConditions s) = wave s + 1 \<longleftrightarrow>
      0 < lives (player s) \<and> getAliveCount (invaderGrid s) = 0) \<and>
   (0 < lives (player s) \<and> getAliveCount (invaderGrid s) = 0 \<longrightarrow>
      checkGameEndConditions s = nextWave s) \<and>
   (\<not> (0 < lives (player s) \<and> getAliveCount (invaderGrid s) = 0) \<longrightarrow>
      wave (checkGameEndConditions s) = wave s \<and>
      invaderGrid (checkGameEndConditions s) = invaderGrid s \<and>
      playerBullets (checkGameEndConditions s) = playerBullets s \<and>
      enemyBullets (checkGameEndConditions s) = enemyBullets s) \<and>
   wave (nextWave s) = wave s + 1 \<and>
   moveDirection (invaderGrid (nextWave s)) = 1 \<and>
   lastMoveTime (invaderGrid (nextWave s)) = 0 \<and>
   gridLastShootTime (invaderGrid (nextWave s)) = 0 \<and>
   previousSpeedStage (invaderGrid (nextWave s)) = 1 \<and>
   baseY (invaderGrid (nextWave s)) = baseY (invaderGrid s) \<and>
   length (enemies (invaderGrid (nextWave s))) = ENEMY_ROWS * ENEMY_COLS \<and>
   (\<forall>r < ENEMY_ROWS. \<forall>c < ENEMY_COLS.
      enemies (invaderGrid (nextWave s)) ! (r * ENEMY_COLS + c) =
        \<lparr>x = ENEMY_START_X + real c * ENEMY_SPACING_X,
         y = baseY (invaderGrid s) + real r * ENEMY_SPACING_Y,
         width = ENEMY_WIDTH, height = ENEMY_HEIGHT, isAlive = True, row = r, col = c\<rparr>) \<and>
   (baseY (invaderGrid s) = ENEMY_START_Y \<longrightarrow>
      enemies (invaderGrid (nextWave s)) = enemies InvaderGrid_new) \<and>
   playerBullets (nextWave s) = [] \<and> enemyBullets (nextWave s) = [] \<and>
   player (nextWave s) = player s \<and> score (nextWave s) = score s \<and>
   gameState (nextWave s) = gameState s \<and> ufo (nextWave s) = ufo s \<and>
   isPlayerRespawning (nextWave s) = isPlayerRespawning s"
proof -
  have g: "invaderGrid (nextWave s) = InvaderGrid_reset (invaderGrid s)"
    by (simp add: nextWave_def)
  have e: "enemies (InvaderGrid_reset (invaderGrid s)) = createEnemies (baseY (invaderGrid s))"
    by (simp add: InvaderGrid_reset_def)
  have iff: "wave (checkGameEndConditions s) = wave s + 1 \<longleftrightarrow>
      0 < lives (player s) \<and> getAliveCount (invaderGrid s) = 0"
    by (simp add: checkGameEndConditions_def gameOver_def play_def nextWave_def)
  have adv: "0 < lives (player s) \<and> getAliveCount (invaderGrid s) = 0 \<longrightarrow>
      checkGameEndConditions s = nextWave s"
    by (simp add: checkGameEndConditions_def)
  have noadv: "\<not> (0 < lives (player s) \<and> getAliveCount (invaderGrid s) = 0) \<longrightarrow>
      wave (checkGameEndConditions s) = wave s \<and>
      invaderGrid (checkGameEndConditions s) = invaderGrid s \<and>
      playerBullets (checkGameEndConditions s) = playerBullets s \<and>
      enemyBullets (checkGameEndConditions s) = enemyBullets s"
    by (simp add: checkGameEndConditions_def gameOver_def play_def)
  have fields: "wave (nextWave s) = wave s + 1 \<and>
     playerBullets (nextWave s) = [] \<and> enemyBullets (nextWave s) = [] \<and>
     player (nextWave s) = player s \<and> score (nextWave s) = score s \<and>
     gameState (nextWave s) = gameState s \<and> ufo (nextWave s) = ufo s \<and>
     isPlayerRespawning (nextWave s) = isPlayerRespawning s"
    by (simp add: nextWave_def)
  have grid: "moveDirection (invaderGrid (nextWave s)) = 1 \<and>
     lastMoveTime (invaderGrid (nextWave s)) = 0 \<and>
     gridLastShootTime (invaderGrid (nextWave s)) = 0 \<and>
     previousSpeedStage (invaderGrid (nextWave s)) = 1 \<and>
     baseY (invaderGrid (nextWave s)) = baseY (invaderGrid s)"
    by (simp add: g InvaderGrid_reset_def)
  have new: "baseY (invaderGrid s) = ENEMY_START_Y \<longrightarrow>
      enemies (invaderGrid (nextWave s)) = enemies InvaderGrid_new"
    by (simp add: g e InvaderGrid_new_def)
  show ?thesis
    using iff adv noadv fields grid new createEnemies_layout [of "baseY (invaderGrid s)"]
    unfolding g e by blast
qed

text \<open>
  C10, witness of the amended statement: in \<open>cleared\<close> no enemy is alive and the player has
  three lives; the check advances the wave from 1 to 2 and recreates the formation of a
  new grid, whose enemy of row 4 and column 0 is at index 36.
\<close>

theorem wave_advance_witness:
  "0 < lives (player cleared) \<and> getAliveCount (invaderGrid cleared) = 0 \<and>
   baseY (invaderGrid cleared) = ENEMY_START_Y \<and>
   (4::nat) < ENEMY_ROWS \<and> (0::nat) < ENEMY_COLS \<and>
   checkGameEndConditions cleared = nextWave cleared \<and>
   wave (checkGameEndConditions cleared) = 2 \<and>
   score (nextWave cleared) = 450 \<and>
   enemies (invaderGrid (nextWave cleared)) = enemies InvaderGrid_new \<and>
   enemies (invaderGrid (nextWave cleared)) ! 36 =
     \<lparr>x = 88, y = 240, width = 48, height = 32, isAlive = True, row = 4, col = 0\<rparr> \<and>
   \<not> (0 < lives (player lostAndCleared) \<and> getAliveCount (invaderGrid lostAndCleared) = 0) \<and>
   wave (checkGameEndConditions lostAndCleared) = wave lostAndCleared"
proof -
  have h: "0 < lives (player cleared)" "baseY (invaderGrid cleared) = ENEMY_START_Y"
    "wave cleared = 1" "score cleared = 450"
    by (simp_all add: cleared_def Session_new_def Player_new_def clearedGrid_def
          InvaderGrid_new_def GAME_CONFIG)
  have a: "getAliveCount (invaderGrid cleared) = 0" by code_simp
  have n: "\<not> (0 < lives (player lostAndCleared) \<and>
              getAliveCount (invaderGrid lostAndCleared) = 0)"
    by (simp add: lostAndCleared_def)
  note W = wave_advance [of cleared]
  note L = wave_advance [of lostAndCleared]
  have 1: "checkGameEndConditions cleared = nextWave cleared"
    using W h(1) a by blast
  have 2: "wave (checkGameEndConditions cleared) = 2"
    using W h(1,3) a by simp
  have 3: "score (nextWave cleared) = 450"
    using W h(4) by simp
  have 4: "enemies (invaderGrid (nextWave cleared)) = enemies InvaderGrid_new"
    using W h(2) by blast
  have "\<forall>r < ENEMY_ROWS. \<forall>c < ENEMY_COLS.
      enemies (invaderGrid (nextWave cleared)) ! (r * ENEMY_COLS + c) =
        \<lparr>x = ENEMY_START_X + real c * ENEMY_SPACING_X,
         y = baseY (invaderGrid cleared) + real r * ENEMY_SPACING_Y,
         width = ENEMY_WIDTH, height = ENEMY_HEIGHT, isAlive = True, row = r, col = c\<rparr>"
    using W by blast
  then have "4 < ENEMY_ROWS \<longrightarrow> 0 < ENEMY_COLS \<longrightarrow>
      enemies (invaderGrid (nextWave cleared)) ! (4 * ENEMY_COLS + 0) =
        \<lparr>x = ENEMY_START_X + real 0 * ENEMY_SPACING_X,
         y = baseY (invaderGrid cleared) + real 4 * ENEMY_SPACING_Y,
         width = ENEMY_WIDTH, height = ENEMY_HEIGHT, isAlive = True, row = 4, col = 0\<rparr>"
    by blast
  then have 5: "enemies (invaderGrid (nextWave cleared)) ! 36 =
     \<lparr>x = 88, y = 240, width = 48, height = 32, isAlive = True, row = 4, col = 0\<rparr>"
    by (simp add: h(2) GAME_CONFIG)
  have 6: "wave (checkGameEndConditions lostAndCleared) = wave lostAndCleared"
    using L n by blast
  show ?thesis
    using h(1,2) a n 1 2 3 4 5 6 by (simp add: GAME_CONFIG)
qed

text \<open>
  C10, counterexample to the claim as stated: in \<open>lostAndCleared\<close> no enemy is alive at the
  end-condition check, yet the wave does not advance, because the player has no life
  left: the game is over.
\<close>

theorem wave_advance_counterexample:
  "getAliveCount (invaderGrid lostAndCleared) = 0 \<and>
   wave (checkGameEndConditions lostAndCleared) = wave lostAndCleared \<and>
   gameState (checkGameEndConditions lostAndCleared) = GAME_OVER \<and>
   invaderGrid (checkGameEndConditions lostAndCleared) = invaderGrid lostAndCleared"
  by code_simp

subsection \<open>The enemy bullets of a playing frame\<close>

lemma afterSwarm_object:
  "afterSwarm f dt now (ObjectValue u) s = (Some TypeError_not_iterable, s)"
  by (simp add: afterSwarm_def)

lemma playerPhase_enemyBullets [simp]:
  "enemyBullets (playerPhase f dt now s) = enemyBullets s"
  by (simp add: playerPhase_def play_def Let_def split: prod.split option.split)

lemma playerPhase_sounds:
  "sounds (playerPhase f dt now s) = sounds s \<or>
   sounds (playerPhase f dt now s) = sounds s @ [PlayerShoot]"
  by (simp add: playerPhase_def play_def Let_def split: prod.split option.split)

lemma shootIfDue_completes:
  "0 \<le> r \<Longrightarrow> r < 1 \<Longrightarrow> \<exists>bs. fst (shootIfDue now v r g) = Inr bs"
  using randomShoot_completes [of r g]
  by (auto simp add: shootIfDue_def)

lemma InvaderGrid_update_completes:
  assumes "0 \<le> r" "r < 1"
  shows "\<exists>v. fst (InvaderGrid_update dt now r g) = Inr v"
proof -
  obtain bs where "fst (shootIfDue now (getCurrentMoveSpeed (snd (checkStage g))) r
            (moveIfDue now (getCurrentMoveSpeed (snd (checkStage g))) (snd (checkStage g)))) = Inr bs"
    using shootIfDue_completes [OF assms] by blast
  then show ?thesis
    by (simp add: InvaderGrid_update_def Let_def case_prod_beta)
qed

lemma playerPhase_invaderGrid [simp]:
  "invaderGrid (playerPhase f dt now s) = invaderGrid s"
  by (simp add: playerPhase_def play_def Let_def split: prod.split option.split)

lemma updatePlaying_throws:
  assumes "\<not> waiting now s"
  shows "\<exists>e s1. updatePlaying f dt now s = (Some e, s1) \<and>
     (0 \<le> randomShooter f \<and> randomShooter f < 1 \<longrightarrow> e = TypeError_not_iterable) \<and>
     invaderGrid s1 = snd (InvaderGrid_update dt now (randomShooter f) (invaderGrid s)) \<and>
     enemyBullets s1 = (if isPlayerRespawning s then [] else enemyBullets s) \<and>
     (sounds s1 = sounds s \<or> sounds s1 = sounds s @ [PlayerShoot])"
proof -
  define s0 where "s0 = (if isPlayerRespawning s
                   then s\<lparr>isPlayerRespawning := False,
                          player := resetPosition (player s),
                          enemyBullets := []\<rparr>
                   else s)"
  define s1 where "s1 = playerPhase f dt now s0"
  define u where "u = InvaderGrid_update dt now (randomShooter f) (invaderGrid s1)"
  define s2 where "s2 = s1\<lparr>invaderGrid := snd u\<rparr>"
  have up: "updatePlaying f dt now s =
     (case fst u of Inl err \<Rightarrow> (Some err, s2)
      | Inr newEnemyBullets \<Rightarrow> afterSwarm f dt now (ObjectValue newEnemyBullets) s2)"
    using assms unfolding s2_def u_def s1_def s0_def
    by (auto simp add: updatePlaying_def waiting_def Let_def case_prod_beta)
  have eb: "enemyBullets s2 = (if isPlayerRespawning s then [] else enemyBullets s)"
    by (simp add: s2_def s1_def s0_def)
  have ig: "invaderGrid s2 = snd (InvaderGrid_update dt now (randomShooter f) (invaderGrid s))"
    by (simp add: s2_def u_def s1_def s0_def)
  have so: "sounds s2 = sounds s \<or> sounds s2 = sounds s @ [PlayerShoot]"
  proof -
    have "sounds s0 = sounds s" by (simp add: s0_def)
    with playerPhase_sounds [of f dt now s0] show ?thesis by (simp add: s2_def s1_def)
  qed
  have noerr: "0 \<le> randomShooter f \<and> randomShooter f < 1 \<Longrightarrow> \<exists>v. fst u = Inr v"
    unfolding u_def using InvaderGrid_update_completes by blast
  show ?thesis
  proof (cases "fst u")
    case (Inl err)
    with noerr have "\<not> (0 \<le> randomShooter f \<and> randomShooter f < 1)" by auto
    with Inl eb ig so show ?thesis by (auto simp add: up)
  next
    case (Inr v)
    with eb ig so show ?thesis by (simp add: up afterSwarm_object)
  qed
qed

text \<open>
  C1. The value that \<^verbatim>\<open>updatePlaying\<close> spreads into \<^verbatim>\<open>enemyBullets.push\<close> is the record
  returned by \<^verbatim>\<open>InvaderGrid.update\<close>; spreading such a record throws, and its \<^verbatim>\<open>.length\<close> is
  not greater than 0. So a playing frame that does not wait for the respawn delay runs
  the swarm's update and then throws (with a drawn random number in \<open>[0, 1)\<close> it is the
  spread that throws); a frame that waits returns at once. In either case the enemy
  bullets of the session are afterwards what they were, or none where the frame ended
  the respawn delay: no bullet of the swarm is ever added. The only sound a playing frame
  can add is that of the player's shot, never that of an enemy's.
\<close>

theorem swarm_bullets_never_added:
  "spread (ObjectValue v) = Inl TypeError_not_iterable \<and>
   \<not> lengthPositive (ObjectValue v) \<and>
   (waiting now s \<longrightarrow> updatePlaying f dt now s = (None, s)) \<and>
   (\<not> waiting now s \<longrightarrow>
      fst (updatePlaying f dt now s) \<noteq> None \<and>
      (0 \<le> randomShooter f \<and> randomShooter f < 1 \<longrightarrow>
         fst (updatePlaying f dt now s) = Some TypeError_not_iterable) \<and>
      invaderGrid (snd (updatePlaying f dt now s))
        = snd (InvaderGrid_update dt now (randomShooter f) (invaderGrid s))) \<and>
   enemyBullets (snd (updatePlaying f dt now s))
     = (if isPlayerRespawning s \<and> \<not> waiting now s then [] else enemyBullets s) \<and>
   (sounds (snd (updatePlaying f dt now s)) = sounds s \<or>
    sounds (snd (updatePlaying f dt now s)) = sounds s @ [PlayerShoot]) \<and>
   (gameState s = PLAYING \<longrightarrow> update f dt now s = updatePlaying f dt now s)"
proof -
  have w: "updatePlaying f dt now s = (None, s)" if "waiting now s"
    using that by (simp add: updatePlaying_def waiting_def)
  have d: "gameState s = PLAYING \<longrightarrow> update f dt now s = updatePlaying f dt now s"
    by (simp add: update_def)
  have l: "\<not> lengthPositive (ObjectValue v)"
    by (simp add: lengthPositive_def)
  show ?thesis
  proof (cases "waiting now s")
    case True
    then show ?thesis using w [OF True] d l by (simp add: waiting_def)
  next
    case False
    from updatePlaying_throws [OF False, of f dt] obtain e s1 where
      "updatePlaying f dt now s = (Some e, s1)"
      "0 \<le> randomShooter f \<and> randomShooter f < 1 \<longrightarrow> e = TypeError_not_iterable"
      "invaderGrid s1 = snd (InvaderGrid_update dt now (randomShooter f) (invaderGrid s))"
      "enemyBullets s1 = (if isPlayerRespawning s then [] else enemyBullets s)"
      "sounds s1 = sounds s \<or> sounds s1 = sounds s @ [PlayerShoot]"
      by blast
    then show ?thesis using False d l by simp
  qed
qed

text \<open>
  C1, witness. In the session \<open>playing\<close>, 5000 ms after the page was loaded, the swarm's
  update returns a record with one bullet; the frame throws at the spread and the enemy
  bullets stay empty. The same session during the respawn delay returns at once.
\<close>

theorem swarm_bullets_never_added_witness:
  "\<not> waiting 5000 playing \<and>
   0 \<le> randomShooter idleFrame \<and> randomShooter idleFrame < 1 \<and>
   gameState playing = PLAYING \<and>
   (case fst (InvaderGrid_update (1 / 60) 5000 (randomShooter idleFrame) (invaderGrid playing)) of
      Inl err \<Rightarrow> False
    | Inr v \<Rightarrow> length (bullets v) = 1) \<and>
   fst (update idleFrame (1 / 60) 5000 playing) = Some TypeError_not_iterable \<and>
   enemyBullets (snd (update idleFrame (1 / 60) 5000 playing)) = [] \<and>
   waiting 5000 (playing\<lparr>isPlayerRespawning := True, playerRespawnTime := 4500\<rparr>) \<and>
   updatePlaying idleFrame (1 / 60) 5000
       (playing\<lparr>isPlayerRespawning := True, playerRespawnTime := 4500\<rparr>)
     = (None, playing\<lparr>isPlayerRespawning := True, playerRespawnTime := 4500\<rparr>)"
proof -
  have h: "\<not> waiting 5000 playing" "0 \<le> randomShooter idleFrame \<and> randomShooter idleFrame < 1"
    "gameState playing = PLAYING" "isPlayerRespawning playing = False"
    "enemyBullets playing = []"
    by (simp_all add: waiting_def playing_def Session_new_def idleFrame_def)
  have b: "case fst (InvaderGrid_update (1 / 60) 5000 (randomShooter idleFrame)
                       (invaderGrid playing)) of
             Inl err \<Rightarrow> False
           | Inr v \<Rightarrow> length (bullets v) = 1"
    by code_simp
  have k: "waiting 5000 (playing\<lparr>isPlayerRespawning := True, playerRespawnTime := 4500\<rparr>)"
    by (simp add: waiting_def)
  note P = swarm_bullets_never_added
             [where s = playing and f = idleFrame and dt = "1 / 60" and now = 5000]
  note Q = swarm_bullets_never_added
             [where s = "playing\<lparr>isPlayerRespawning := True, playerRespawnTime := 4500\<rparr>"
                and f = idleFrame and dt = "1 / 60" and now = 5000]
  have 1: "fst (update idleFrame (1 / 60) 5000 playing) = Some TypeError_not_iterable"
    using P h(1,2,3) by simp
  have 2: "enemyBullets (snd (update idleFrame (1 / 60) 5000 playing)) = []"
    using P h(1,3,4,5) by simp
  have 3: "updatePlaying idleFrame (1 / 60) 5000
       (playing\<lparr>isPlayerRespawning := True, playerRespawnTime := 4500\<rparr>)
     = (None, playing\<lparr>isPlayerRespawning := True, playerRespawnTime := 4500\<rparr>)"
    using Q k by blast
  show ?thesis
    using h(1,2,3) b k 1 2 3 by simp
qed

end
